theory Spec2Isabelle
  imports Complex_Main "HOL-Library.AList" "HOL-Library.Char_ord" "HOL-Library.List_Lexorder"
    "HOL-Library.Product_Lexorder"
begin

section \<open>Values, exceptions and the log\<close>

text \<open>
  A cell is what a SQLite column or a pandas column holds: SQL NULL / pandas NaN or None
  (\<open>Null\<close>), a number, or text. Integers and floats are both \<open>Num\<close>, over the exact
  rationals: rounding, overflow to infinity and the distinction between 1 and 1.0 are not
  modelled (SQLite compares 1 and 1.0 as equal, and so does pandas).
\<close>

datatype cell = Null | Num rat | Str string

text \<open>
  The exceptions the two functions can meet. \<open>KeyboardInterrupt\<close> stands for the
  exceptions that do not derive from Python's \<open>Exception\<close> class, which
  \<^verbatim>\<open>except Exception\<close> does not catch. The string is the exception's message.
\<close>

datatype exn =
    KeyError string
  | TypeError string
  | ZeroDivisionError string
  | DatabaseError string
  | ProgrammingError string
  | KeyboardInterrupt

fun is_Exception :: "exn \<Rightarrow> bool" where
  "is_Exception KeyboardInterrupt = False"
| "is_Exception _ = True"

definition quote :: "string \<Rightarrow> string" where
  "quote s = [CHR 0x27] @ s @ [CHR 0x27]"

text \<open>\<open>str(e)\<close>: a KeyError prints the repr of its key, the others their message.\<close>

fun exn_str :: "exn \<Rightarrow> string" where
  "exn_str (KeyError c) = quote c"
| "exn_str (TypeError m) = m"
| "exn_str (ZeroDivisionError m) = m"
| "exn_str (DatabaseError m) = m"
| "exn_str (ProgrammingError m) = m"
| "exn_str KeyboardInterrupt = []"

datatype level = INFO | WARNING | ERROR | CRITICAL

type_synonym log = "(level \<times> string) list"

section \<open>The pandas operations that \<open>clean_vendor_summary\<close> uses\<close>

text \<open>
  A DataFrame is held by columns, in column order; \<open>nrows\<close> is the length of its index.
  pandas keeps every column as long as the index and this model reads column names as
  unique: \<open>df_ok\<close>.
\<close>

record dataframe =
  nrows :: nat
  columns :: "(string \<times> cell list) list"

definition df_ok :: "dataframe \<Rightarrow> bool" where
  "df_ok df = (distinct (map fst (columns df)) \<and>
     list_all (\<lambda>cv. length (snd cv) = nrows df) (columns df))"

text \<open>\<open>pd.DataFrame()\<close>\<close>

definition DataFrame :: dataframe where
  "DataFrame = \<lparr>nrows = 0, columns = []\<rparr>"

text \<open>\<open>df.empty\<close>: an axis of length 0.\<close>

definition df_empty :: "dataframe \<Rightarrow> bool" where
  "df_empty df = (nrows df = 0 \<or> columns df = [])"

text \<open>\<open>df[c]\<close>: the column, or KeyError.\<close>

definition getitem :: "dataframe \<Rightarrow> string \<Rightarrow> exn + cell list" where
  "getitem df c = (case map_of (columns df) c of None \<Rightarrow> Inl (KeyError c) | Some v \<Rightarrow> Inr v)"

text \<open>\<open>df[c] = v\<close>: replaces the column where it stands, or appends a new last column.\<close>

definition setitem :: "dataframe \<Rightarrow> string \<Rightarrow> cell list \<Rightarrow> dataframe" where
  "setitem df c v = df\<lparr>columns := AList.update c v (columns df)\<rparr>"

text \<open>\<open>df.fillna(value)\<close>: every null of every column becomes \<open>value\<close>.\<close>

definition fill :: "cell \<Rightarrow> cell \<Rightarrow> cell" where
  "fill value x = (if x = Null then value else x)"

definition fillna :: "cell \<Rightarrow> dataframe \<Rightarrow> dataframe" where
  "fillna value df = df\<lparr>columns := map (\<lambda>cv. (fst cv, map (fill value) (snd cv))) (columns df)\<rparr>"

text \<open>
  \<open>pd.to_numeric(s, errors='coerce')\<close>: text that parses as a number becomes that number,
  any other text becomes null. Which strings pandas parses is left open: the parser is a
  parameter of the model.
\<close>

type_synonym parser = "string \<Rightarrow> rat option"

fun coerce :: "parser \<Rightarrow> cell \<Rightarrow> cell" where
  "coerce parse (Str s) = (case parse s of None \<Rightarrow> Null | Some q \<Rightarrow> Num q)"
| "coerce parse x = x"

definition to_numeric :: "parser \<Rightarrow> cell list \<Rightarrow> cell list" where
  "to_numeric parse s = map (coerce parse) s"

text \<open>\<open>s.replace(a, b)\<close>\<close>

definition series_replace :: "cell \<Rightarrow> cell \<Rightarrow> cell list \<Rightarrow> cell list" where
  "series_replace a b s = map (\<lambda>x. if x = a then b else x) s"

text \<open>
  Arithmetic on two cells. A null operand gives null (NaN propagates, and on columns of
  Python objects pandas skips the positions where an operand is null); otherwise text in
  an operand raises TypeError. Division by a zero that is still there is the outcome
  \<open>ZeroDivisionError\<close>: Python raises it on object columns, and on float columns pandas
  would give an infinity or NaN instead; the model writes both as this one branch.
\<close>

fun cell_sub :: "cell \<Rightarrow> cell \<Rightarrow> exn + cell" where
  "cell_sub Null _ = Inr Null"
| "cell_sub _ Null = Inr Null"
| "cell_sub (Num a) (Num b) = Inr (Num (a - b))"
| "cell_sub _ _ = Inl (TypeError ''unsupported operand type(s) for -'')"

fun cell_truediv :: "cell \<Rightarrow> cell \<Rightarrow> exn + cell" where
  "cell_truediv Null _ = Inr Null"
| "cell_truediv _ Null = Inr Null"
| "cell_truediv (Num a) (Num b) =
     (if b = 0 then Inl (ZeroDivisionError ''division by zero'') else Inr (Num (a / b)))"
| "cell_truediv _ _ = Inl (TypeError ''unsupported operand type(s) for /'')"

text \<open>An operator on two columns of one table, row by row; the first failure is raised.\<close>

fun series_op :: "(cell \<Rightarrow> cell \<Rightarrow> exn + cell) \<Rightarrow> cell list \<Rightarrow> cell list \<Rightarrow> exn + cell list" where
  "series_op f (a # as) (b # bs) =
     (case f a b of
        Inl e \<Rightarrow> Inl e
      | Inr c \<Rightarrow> (case series_op f as bs of Inl e \<Rightarrow> Inl e | Inr cs \<Rightarrow> Inr (c # cs)))"
| "series_op f _ _ = Inr []"

section \<open>Statements on a table object\<close>

text \<open>
  \<open>clean_vendor_summary\<close> changes the DataFrame it is given. Objects live in a store;
  a variable holds a reference. An expression reads the store and may raise; a statement
  changes the store, or raises and leaves it as it was when the exception came.
\<close>

type_synonym ref = nat
type_synonym heap = "ref \<Rightarrow> dataframe"
type_synonym expr = "heap \<Rightarrow> exn + cell list"
type_synonym stmt = "heap \<Rightarrow> exn option \<times> heap"

definition col :: "ref \<Rightarrow> string \<Rightarrow> expr" where
  "col r c h = getitem (h r) c"

definition unop :: "(cell list \<Rightarrow> cell list) \<Rightarrow> expr \<Rightarrow> expr" where
  "unop f a h = (case a h of Inl e \<Rightarrow> Inl e | Inr x \<Rightarrow> Inr (f x))"

text \<open>The left operand is evaluated first.\<close>

definition binop :: "(cell list \<Rightarrow> cell list \<Rightarrow> exn + cell list) \<Rightarrow> expr \<Rightarrow> expr \<Rightarrow> expr" where
  "binop f a b h =
     (case a h of
        Inl e \<Rightarrow> Inl e
      | Inr x \<Rightarrow> (case b h of Inl e \<Rightarrow> Inl e | Inr y \<Rightarrow> f x y))"

text \<open>\<open>df[c] = rhs\<close> on the object at \<open>r\<close>\<close>

definition assign_column :: "ref \<Rightarrow> string \<Rightarrow> expr \<Rightarrow> stmt" where
  "assign_column r c rhs h =
     (case rhs h of
        Inl e \<Rightarrow> (Some e, h)
      | Inr v \<Rightarrow> (None, h(r := setitem (h r) c v)))"

text \<open>\<open>df.fillna(value, inplace=True)\<close> on the object at \<open>r\<close>\<close>

definition fillna_inplace :: "ref \<Rightarrow> cell \<Rightarrow> stmt" where
  "fillna_inplace r value h = (None, h(r := fillna value (h r)))"

text \<open>One statement after another: an exception ends the block.\<close>

definition seq :: "stmt \<Rightarrow> stmt \<Rightarrow> stmt" where
  "seq s t h = (case s h of (Some e, h') \<Rightarrow> (Some e, h') | (None, h') \<Rightarrow> t h')"

section \<open>\<open>clean_vendor_summary\<close>\<close>

text \<open>The body of the \<^verbatim>\<open>try\<close> block, lines 122 to 131, up to its \<^verbatim>\<open>return df\<close>.\<close>

definition try_body :: "parser \<Rightarrow> ref \<Rightarrow> stmt" where
  "try_body parse df =
     seq (assign_column df ''Volume'' (unop (to_numeric parse) (col df ''Volume'')))
    (seq (fillna_inplace df (Num 0))
    (seq (assign_column df ''gross_profit''
            (binop (series_op cell_sub) (col df ''total_sales_dollars'') (col df ''total_dollars'')))
    (seq (assign_column df ''gross_margin''
            (binop (series_op cell_truediv) (col df ''gross_profit'')
               (unop (series_replace (Num 0) Null) (col df ''total_sales_dollars''))))
    (seq (assign_column df ''stock_turnover''
            (binop (series_op cell_truediv) (col df ''total_sales_quantity'')
               (unop (series_replace (Num 0) Null) (col df ''total_quantity''))))
         (assign_column df ''sales_purchase_ratio''
            (binop (series_op cell_truediv) (col df ''total_sales_dollars'')
               (unop (series_replace (Num 0) Null) (col df ''total_dollars''))))))))"

text \<open>The table after lines 122 and 123, when \<open>vol\<close> is its Volume column.\<close>

definition filled :: "parser \<Rightarrow> dataframe \<Rightarrow> cell list \<Rightarrow> dataframe" where
  "filled parse d vol = fillna (Num 0) (setitem d ''Volume'' (to_numeric parse vol))"

text \<open>
  The function: the lines it logs, the store it leaves, and the reference it returns
  (\<open>Inr\<close>) or the exception that leaves it (\<open>Inl\<close>). The handlers are tried in the
  source's order: \<^verbatim>\<open>except KeyError\<close>, then \<^verbatim>\<open>except Exception\<close>.
\<close>

definition clean_vendor_summary :: "parser \<Rightarrow> ref \<Rightarrow> heap \<Rightarrow> log \<times> heap \<times> (exn + ref)" where
  "clean_vendor_summary parse df h =
     (if df_empty (h df) then
        ([(WARNING, ''Input DataFrame is empty, skipping cleaning process.'')], h, Inr df)
      else
        (case try_body parse df h of
           (None, h') \<Rightarrow> ([], h', Inr df)
         | (Some (KeyError c), h') \<Rightarrow>
             ([(ERROR, ''Missing expected column in DataFrame: '' @ exn_str (KeyError c))], h', Inr df)
         | (Some e, h') \<Rightarrow>
             (if is_Exception e then
                ([(ERROR, ''An unexpected error occurred during cleaning: '' @ exn_str e)], h', Inr df)
              else ([], h', Inl e))))"

section \<open>The source tables and the SQL operators of the query\<close>

text \<open>
  The four tables the query reads, with the columns it names. The source declares no
  column types: identifiers, names and the catalog volume are arbitrary cells, amounts
  (prices, quantities, dollars, freight, tax) are a number or NULL.
\<close>

record invoice =
  i_VendorNumber :: cell
  i_Freight :: "rat option"

record purchase =
  p_VendorNumber :: cell
  p_VendorName :: cell
  p_Brand :: cell
  p_PurchasePrice :: "rat option"
  p_Description :: cell
  p_Quantity :: "rat option"
  p_Dollars :: "rat option"

record purchase_price =
  pp_Brand :: cell
  pp_Volume :: cell
  pp_Price :: "rat option"

record sale =
  s_VendorNo :: cell
  s_Brand :: cell
  s_SalesQuantity :: "rat option"
  s_SalesDollars :: "rat option"
  s_SalesPrice :: "rat option"
  s_ExciseTax :: "rat option"

record database =
  vendor_invoice :: "invoice list"
  purchases :: "purchase list"
  purchase_prices :: "purchase_price list"
  sales :: "sale list"

text \<open>\<open>a = b\<close> in a join condition is true only for equal values that are not NULL.\<close>

definition sql_eq :: "cell \<Rightarrow> cell \<Rightarrow> bool" where
  "sql_eq a b = (a \<noteq> Null \<and> b \<noteq> Null \<and> a = b)"

text \<open>\<open>x > 0\<close> in a WHERE clause: NULL is not true.\<close>

definition gt_zero :: "rat option \<Rightarrow> bool" where
  "gt_zero x = (case x of None \<Rightarrow> False | Some q \<Rightarrow> 0 < q)"

text \<open>\<open>SUM\<close> over a group: NULL when the group has no value that is not NULL.\<close>

definition sql_sum :: "rat option list \<Rightarrow> rat option" where
  "sql_sum xs = (if list_all (\<lambda>x. x = None) xs then None else Some (sum_list (map (\<lambda>x. case x of None \<Rightarrow> 0 | Some q \<Rightarrow> q) xs)))"

definition num :: "rat option \<Rightarrow> cell" where
  "num x = (case x of None \<Rightarrow> Null | Some q \<Rightarrow> Num q)"

text \<open>
  \<open>GROUP BY key\<close>: one group per distinct key, NULL keys grouped together (equality of
  cells). The group of a key is never empty.
\<close>

definition group_keys :: "('a \<Rightarrow> 'k) \<Rightarrow> 'a list \<Rightarrow> 'k list" where
  "group_keys key rows = remdups (map key rows)"

definition group_of :: "('a \<Rightarrow> 'k) \<Rightarrow> 'a list \<Rightarrow> 'k \<Rightarrow> 'a list" where
  "group_of key rows k = filter (\<lambda>x. key x = k) rows"

text \<open>\<open>xs LEFT JOIN ys ON on\<close>: a row of \<open>xs\<close> with no match is kept, with NULLs.\<close>

definition left_join :: "('a \<Rightarrow> 'b \<Rightarrow> bool) \<Rightarrow> 'a list \<Rightarrow> 'b list \<Rightarrow> ('a \<times> 'b option) list" where
  "left_join on xs ys =
     concat (map (\<lambda>x. let ms = filter (on x) ys
                       in if ms = [] then [(x, None)] else map (\<lambda>y. (x, Some y)) ms) xs)"

text \<open>
  The order of \<open>ORDER BY\<close>: NULL first, then numbers by value, then text by its bytes.
\<close>

instantiation cell :: linorder
begin

fun less_eq_cell :: "cell \<Rightarrow> cell \<Rightarrow> bool" where
  "less_eq_cell Null _ = True"
| "less_eq_cell (Num a) Null = False"
| "less_eq_cell (Num a) (Num b) = (a \<le> b)"
| "less_eq_cell (Num a) (Str t) = True"
| "less_eq_cell (Str s) (Str t) = (s \<le> t)"
| "less_eq_cell (Str s) _ = False"

definition less_cell :: "cell \<Rightarrow> cell \<Rightarrow> bool" where
  "less_cell a b = (a \<le> b \<and> \<not> b \<le> a)"

instance
proof
  fix x y z :: cell
  show "(x < y) = (x \<le> y \<and> \<not> y \<le> x)" by (simp add: less_cell_def)
  show "x \<le> x" by (cases x) simp_all
  show "x \<le> y \<Longrightarrow> y \<le> z \<Longrightarrow> x \<le> z" by (cases x; cases y; cases z) auto
  show "x \<le> y \<Longrightarrow> y \<le> x \<Longrightarrow> x = y" by (cases x; cases y) auto
  show "x \<le> y \<or> y \<le> x" by (cases x; cases y) auto
qed

end

section \<open>The query of \<open>create_vendor_summary\<close>\<close>

text \<open>\<open>freightsummary\<close>\<close>

record freight_row =
  f_vendorNumber :: cell
  f_freight_cost :: "rat option"

definition freightsummary :: "invoice list \<Rightarrow> freight_row list" where
  "freightsummary rows =
     map (\<lambda>k. \<lparr>f_vendorNumber = k,
               f_freight_cost = sql_sum (map i_Freight (group_of i_VendorNumber rows k))\<rparr>)
         (group_keys i_VendorNumber rows)"

text \<open>
  \<open>purchase_summary\<close>: the inner join on the brand, the filter on the purchase price, the
  groups by (VendorNumber, VendorName, Brand). The columns that are neither grouped nor
  summed (PurchasePrice, description, Volume, Price) are read from one row of the group,
  which SQLite leaves open; the model reads the first.
\<close>

record purchase_row =
  ps_VendorNumber :: cell
  ps_VendorName :: cell
  ps_Brand :: cell
  ps_PurchasePrice :: "rat option"
  ps_description :: cell
  ps_Volume :: cell
  ps_actual_price :: "rat option"
  ps_total_quantity :: "rat option"
  ps_total_dollars :: "rat option"

definition purchase_join :: "purchase list \<Rightarrow> purchase_price list \<Rightarrow> (purchase \<times> purchase_price) list" where
  "purchase_join ps pps =
     [(p, pp). p \<leftarrow> ps, pp \<leftarrow> pps, sql_eq (p_Brand p) (pp_Brand pp), gt_zero (p_PurchasePrice p)]"

definition purchase_key :: "purchase \<times> purchase_price \<Rightarrow> cell \<times> cell \<times> cell" where
  "purchase_key x = (p_VendorNumber (fst x), p_VendorName (fst x), p_Brand (fst x))"

definition purchase_group :: "(purchase \<times> purchase_price) list \<Rightarrow> purchase_row" where
  "purchase_group g =
     \<lparr>ps_VendorNumber = p_VendorNumber (fst (hd g)),
      ps_VendorName = p_VendorName (fst (hd g)),
      ps_Brand = p_Brand (fst (hd g)),
      ps_PurchasePrice = p_PurchasePrice (fst (hd g)),
      ps_description = p_Description (fst (hd g)),
      ps_Volume = pp_Volume (snd (hd g)),
      ps_actual_price = pp_Price (snd (hd g)),
      ps_total_quantity = sql_sum (map (\<lambda>x. p_Quantity (fst x)) g),
      ps_total_dollars = sql_sum (map (\<lambda>x. p_Dollars (fst x)) g)\<rparr>"

definition purchase_summary :: "purchase list \<Rightarrow> purchase_price list \<Rightarrow> purchase_row list" where
  "purchase_summary ps pps =
     map (\<lambda>k. purchase_group (group_of purchase_key (purchase_join ps pps) k))
         (group_keys purchase_key (purchase_join ps pps))"

text \<open>\<open>sales_summary\<close>\<close>

record sales_row =
  ss_VendorNo :: cell
  ss_Brand :: cell
  ss_total_sales_quantity :: "rat option"
  ss_total_sales_dollars :: "rat option"
  ss_total_sales_price :: "rat option"
  ss_total_excise_tax :: "rat option"

definition sales_key :: "sale \<Rightarrow> cell \<times> cell" where
  "sales_key s = (s_VendorNo s, s_Brand s)"

definition sales_group :: "cell \<times> cell \<Rightarrow> sale list \<Rightarrow> sales_row" where
  "sales_group k g =
     \<lparr>ss_VendorNo = fst k,
      ss_Brand = snd k,
      ss_total_sales_quantity = sql_sum (map s_SalesQuantity g),
      ss_total_sales_dollars = sql_sum (map s_SalesDollars g),
      ss_total_sales_price = sql_sum (map s_SalesPrice g),
      ss_total_excise_tax = sql_sum (map s_ExciseTax g)\<rparr>"

definition sales_summary :: "sale list \<Rightarrow> sales_row list" where
  "sales_summary ss = map (\<lambda>k. sales_group k (group_of sales_key ss k)) (group_keys sales_key ss)"

text \<open>The final SELECT: the two left joins and the ORDER BY.\<close>

type_synonym joined_row = "(purchase_row \<times> sales_row option) \<times> freight_row option"

definition on_sales :: "purchase_row \<Rightarrow> sales_row \<Rightarrow> bool" where
  "on_sales p s = (sql_eq (ps_VendorNumber p) (ss_VendorNo s) \<and> sql_eq (ps_Brand p) (ss_Brand s))"

definition on_freight :: "purchase_row \<times> sales_row option \<Rightarrow> freight_row \<Rightarrow> bool" where
  "on_freight ps f = sql_eq (ps_VendorNumber (fst ps)) (f_vendorNumber f)"

definition order_key :: "joined_row \<Rightarrow> cell \<times> cell" where
  "order_key x = (ps_VendorNumber (fst (fst x)), ps_Brand (fst (fst x)))"

definition vendor_rows :: "database \<Rightarrow> joined_row list" where
  "vendor_rows db =
     sort_key order_key
       (left_join on_freight
          (left_join on_sales (purchase_summary (purchases db) (purchase_prices db))
             (sales_summary (sales db)))
          (freightsummary (vendor_invoice db)))"

definition sales_cell :: "(sales_row \<Rightarrow> rat option) \<Rightarrow> joined_row \<Rightarrow> cell" where
  "sales_cell f x = (case snd (fst x) of None \<Rightarrow> Null | Some s \<Rightarrow> num (f s))"

definition freight_cell :: "joined_row \<Rightarrow> cell" where
  "freight_cell x = (case snd x of None \<Rightarrow> Null | Some f \<Rightarrow> num (f_freight_cost f))"

text \<open>The result set as pandas builds it: the selected columns, in the SELECT's order.\<close>

definition query_frame :: "joined_row list \<Rightarrow> dataframe" where
  "query_frame rows =
     \<lparr>nrows = length rows,
      columns =
        [(''VendorNumber'', map (\<lambda>x. ps_VendorNumber (fst (fst x))) rows),
         (''VendorName'', map (\<lambda>x. ps_VendorName (fst (fst x))) rows),
         (''Brand'', map (\<lambda>x. ps_Brand (fst (fst x))) rows),
         (''PurchasePrice'', map (\<lambda>x. num (ps_PurchasePrice (fst (fst x)))) rows),
         (''description'', map (\<lambda>x. ps_description (fst (fst x))) rows),
         (''Volume'', map (\<lambda>x. ps_Volume (fst (fst x))) rows),
         (''actual_price'', map (\<lambda>x. num (ps_actual_price (fst (fst x)))) rows),
         (''total_quantity'', map (\<lambda>x. num (ps_total_quantity (fst (fst x)))) rows),
         (''total_dollars'', map (\<lambda>x. num (ps_total_dollars (fst (fst x)))) rows),
         (''total_sales_quantity'', map (sales_cell ss_total_sales_quantity) rows),
         (''total_sales_dollars'', map (sales_cell ss_total_sales_dollars) rows),
         (''total_sales_price'', map (sales_cell ss_total_sales_price) rows),
         (''total_excise_tax'', map (sales_cell ss_total_excise_tax) rows),
         (''freight_cost'', map freight_cell rows)]\<rparr>"

section \<open>\<open>create_vendor_summary\<close>\<close>

text \<open>
  The connection: \<open>conn_fault\<close> is the exception the driver raises when the query is
  run, if any (a closed connection, a locked or unreadable file, an interrupt);
  \<open>conn_store\<close> is the database, \<open>None\<close> when a table or a column the query names
  is not there.
\<close>

record connection =
  conn_fault :: "exn option"
  conn_store :: "database option"

text \<open>\<open>pd.read_sql_query(sql_query, conn)\<close>\<close>

definition read_sql_query :: "connection \<Rightarrow> exn + dataframe" where
  "read_sql_query conn =
     (case conn_fault conn of
        Some e \<Rightarrow> Inl e
      | None \<Rightarrow>
          (case conn_store conn of
             None \<Rightarrow> Inl (DatabaseError ''Execution failed on sql: no such table or column'')
           | Some db \<Rightarrow> Inr (query_frame (vendor_rows db))))"

definition create_vendor_summary :: "connection \<Rightarrow> log \<times> (exn + dataframe)" where
  "create_vendor_summary conn =
     (case read_sql_query conn of
        Inr vendor_sales_summary \<Rightarrow>
          ([(INFO, ''Attempting to create vendor summary DataFrame.''),
            (INFO, ''Vendor summary DataFrame created successfully.'')],
           Inr vendor_sales_summary)
      | Inl e \<Rightarrow>
          (if is_Exception e then
             ([(INFO, ''Attempting to create vendor summary DataFrame.''),
               (ERROR, ''Error executing SQL query: '' @ exn_str e)],
              Inr DataFrame)
           else ([(INFO, ''Attempting to create vendor summary DataFrame.'')], Inl e)))"

section \<open>Example inputs\<close>

text \<open>A parser that reads the one volume of the examples.\<close>

definition ex_parse :: parser where
  "ex_parse s = (if s = ''750'' then Some 750 else None)"

text \<open>A store that holds the table \<open>d\<close> at reference 0.\<close>

definition ex_store :: "dataframe \<Rightarrow> heap" where
  "ex_store d = (\<lambda>r. DataFrame)(0 := d)"

text \<open>A result set with no rows.\<close>

definition ex_no_rows :: dataframe where
  "ex_no_rows =
     \<lparr>nrows = 0,
      columns = [(''VendorNumber'', []), (''Brand'', []), (''Volume'', []),
        (''total_quantity'', []), (''total_dollars'', []),
        (''total_sales_quantity'', []), (''total_sales_dollars'', [])]\<rparr>"

text \<open>
  Two rows as the query leaves them: vendor 1 bought 5 units of brand 1 for 50 dollars
  and sold 4 for 48; vendor 2 bought 3 units of brand 2 for 30 dollars and has no sales
  row, so its sales columns are NULL, and its volume is not a number.
\<close>

definition ex_summary :: dataframe where
  "ex_summary =
     \<lparr>nrows = 2,
      columns = [(''VendorNumber'', [Num 1, Num 2]), (''Brand'', [Num 1, Num 2]),
        (''Volume'', [Str ''750'', Str ''Unknown'']),
        (''total_quantity'', [Num 5, Num 3]), (''total_dollars'', [Num 50, Num 30]),
        (''total_sales_quantity'', [Num 4, Null]), (''total_sales_dollars'', [Num 48, Null])]\<rparr>"

text \<open>What \<open>clean_vendor_summary\<close> makes of \<open>ex_summary\<close>.\<close>

definition ex_enriched :: dataframe where
  "ex_enriched =
     \<lparr>nrows = 2,
      columns = [(''VendorNumber'', [Num 1, Num 2]), (''Brand'', [Num 1, Num 2]),
        (''Volume'', [Num 750, Num 0]),
        (''total_quantity'', [Num 5, Num 3]), (''total_dollars'', [Num 50, Num 30]),
        (''total_sales_quantity'', [Num 4, Num 0]), (''total_sales_dollars'', [Num 48, Num 0]),
        (''gross_profit'', [Num (- 2), Num (- 30)]),
        (''gross_margin'', [Num (- 1 / 24), Null]),
        (''stock_turnover'', [Num (4 / 5), Num 0]),
        (''sales_purchase_ratio'', [Num (24 / 25), Num 0])]\<rparr>"




text \<open>
  A database in which vendor 1 appears under two names for the same brand, with no sales
  and no invoices; an open connection to it and a closed one.
\<close>

definition ex_purchase :: "string \<Rightarrow> rat \<Rightarrow> purchase" where
  "ex_purchase name q =
     \<lparr>p_VendorNumber = Num 1, p_VendorName = Str name, p_Brand = Num 10,
      p_PurchasePrice = Some 10, p_Description = Str ''Gin'', p_Quantity = Some q,
      p_Dollars = Some (10 * q)\<rparr>"

definition ex_db :: database where
  "ex_db =
     \<lparr>vendor_invoice = [],
      purchases = [ex_purchase ''ALPHA'' 5, ex_purchase ''ALPHA INC'' 2],
      purchase_prices = [\<lparr>pp_Brand = Num 10, pp_Volume = Str ''750'', pp_Price = Some 12\<rparr>],
      sales = []\<rparr>"

definition ex_conn :: connection where
  "ex_conn = \<lparr>conn_fault = None, conn_store = Some ex_db\<rparr>"

definition ex_closed :: connection where
  "ex_closed =
     \<lparr>conn_fault = Some (ProgrammingError ''Cannot operate on a closed database.''),
      conn_store = Some ex_db\<rparr>"


section \<open>Columns, statements and the enriched table\<close>


lemma map_of_map_snd:
  "map_of (map (\<lambda>cv. (fst cv, f (snd cv))) xs) c = map_option f (map_of xs c)"
  by (induction xs) auto

lemma getitem_setitem:
  "getitem (setitem df c v) c' = (if c' = c then Inr v else getitem df c')"
  by (simp add: getitem_def setitem_def update_conv')

lemma getitem_fillna:
  "getitem (fillna x df) c = (case getitem df c of Inl e \<Rightarrow> Inl e | Inr v \<Rightarrow> Inr (map (fill x) v))"
  by (simp add: getitem_def fillna_def map_of_map_snd split: option.splits)

lemma nrows_setitem: "nrows (setitem df c v) = nrows df"
  by (simp add: setitem_def)

lemma nrows_fillna: "nrows (fillna x df) = nrows df"
  by (simp add: fillna_def)

lemma set_update_subset: "x \<in> set (AList.update k v al) \<Longrightarrow> x = (k, v) \<or> x \<in> set al"
  by (induction al) (auto split: if_splits)

lemma df_ok_setitem: "df_ok df \<Longrightarrow> length v = nrows df \<Longrightarrow> df_ok (setitem df c v)"
  by (auto simp: df_ok_def setitem_def list_all_iff distinct_update dest: set_update_subset)

lemma df_ok_fillna: "df_ok df \<Longrightarrow> df_ok (fillna x df)"
  by (auto simp: df_ok_def fillna_def list_all_iff comp_def)

lemma getitem_length: "df_ok df \<Longrightarrow> getitem df c = Inr v \<Longrightarrow> length v = nrows df"
  by (auto simp: df_ok_def getitem_def list_all_iff split: option.splits dest!: map_of_SomeD)

lemma series_op_Inr:
  "series_op f xs ys = Inr zs \<Longrightarrow>
     length zs = min (length xs) (length ys) \<and> (\<forall>i<length zs. f (xs ! i) (ys ! i) = Inr (zs ! i))"
proof (induction f xs ys arbitrary: zs rule: series_op.induct)
  case (1 f a as b bs)
  then show ?case by (auto split: sum.splits simp: nth_Cons split: nat.splits)
qed auto

lemma seq_None: "seq s t h = (None, h'') \<longleftrightarrow> (\<exists>h'. s h = (None, h') \<and> t h' = (None, h''))"
  by (auto simp: seq_def split: prod.splits option.splits)

lemma assign_None:
  "assign_column r c rhs h = (None, h') \<longleftrightarrow> (\<exists>v. rhs h = Inr v \<and> h' = h(r := setitem (h r) c v))"
  by (auto simp: assign_column_def split: sum.splits)

lemma binop_Inr:
  "binop f a b h = Inr v \<longleftrightarrow> (\<exists>x y. a h = Inr x \<and> b h = Inr y \<and> f x y = Inr v)"
  by (auto simp: binop_def split: sum.splits)

lemma unop_Inr: "unop f a h = Inr v \<longleftrightarrow> (\<exists>x. a h = Inr x \<and> v = f x)"
  by (auto simp: unop_def split: sum.splits)


lemma try_body_None:
  assumes "try_body parse r h = (None, h')"
  shows "\<exists>vol tsd td tsq tq gp gm st sp.
     getitem (h r) ''Volume'' = Inr vol \<and>
     getitem (filled parse (h r) vol) ''total_sales_dollars'' = Inr tsd \<and>
     getitem (filled parse (h r) vol) ''total_dollars'' = Inr td \<and>
     getitem (filled parse (h r) vol) ''total_sales_quantity'' = Inr tsq \<and>
     getitem (filled parse (h r) vol) ''total_quantity'' = Inr tq \<and>
     series_op cell_sub tsd td = Inr gp \<and>
     series_op cell_truediv gp (series_replace (Num 0) Null tsd) = Inr gm \<and>
     series_op cell_truediv tsq (series_replace (Num 0) Null tq) = Inr st \<and>
     series_op cell_truediv tsd (series_replace (Num 0) Null td) = Inr sp \<and>
     h' = h(r := setitem (setitem (setitem (setitem (filled parse (h r) vol)
             ''gross_profit'' gp) ''gross_margin'' gm) ''stock_turnover'' st) ''sales_purchase_ratio'' sp)"
  using assms
  by (auto simp: try_body_def seq_None assign_None binop_Inr unop_Inr col_def fillna_inplace_def
      getitem_setitem filled_def)


lemma clean_ok_body:
  assumes "\<not> df_empty (h df)" "clean_vendor_summary parse df h = ([], h', Inr df')"
  shows "df' = df \<and> try_body parse df h = (None, h')"
proof (cases "try_body parse df h")
  case (Pair e h1)
  show ?thesis
  proof (cases e)
    case None
    with Pair assms show ?thesis by (simp add: clean_vendor_summary_def)
  next
    case (Some x)
    with Pair assms show ?thesis
      by (cases x; cases "is_Exception x") (simp_all add: clean_vendor_summary_def)
  qed
qed

lemma fill_not_Null: "fill (Num 0) x \<noteq> Null"
  by (simp add: fill_def)

lemma columns_fillna: "(c, v) \<in> set (columns (fillna x df)) \<Longrightarrow> \<exists>w. v = map (fill x) w"
  by (auto simp: fillna_def)

lemma columns_setitem:
  "(c', w) \<in> set (columns (setitem df c v)) \<Longrightarrow> (c', w) = (c, v) \<or> (c', w) \<in> set (columns df)"
  by (auto simp: setitem_def dest: set_update_subset)

lemma df_ok_filled:
  "df_ok d \<Longrightarrow> getitem d ''Volume'' = Inr vol \<Longrightarrow> df_ok (filled parse d vol) \<and> nrows (filled parse d vol) = nrows d"
  by (auto simp: filled_def nrows_fillna nrows_setitem to_numeric_def
      intro!: df_ok_fillna df_ok_setitem dest: getitem_length)

lemma getitem_filled:
  "c \<noteq> ''Volume'' \<Longrightarrow> getitem (filled parse d vol) c = Inr v \<Longrightarrow>
     \<exists>v0. getitem d c = Inr v0 \<and> v = map (fill (Num 0)) v0"
  by (auto simp: filled_def getitem_fillna getitem_setitem split: sum.splits)

lemma columns_filled: "(c, v) \<in> set (columns (filled parse d vol)) \<Longrightarrow> Null \<notin> set v"
  by (auto simp: filled_def fill_def dest!: columns_fillna split: if_splits)

lemma enriched_rows:
  assumes ne: "\<not> df_empty (h df)" and ok: "df_ok (h df)"
    and run: "clean_vendor_summary parse df h = ([], h', Inr df')"
  shows "\<exists>tsd0 td0 tsq0 tq0 gp gm st sp.
     df' = df \<and> nrows (h' df') = nrows (h df) \<and>
     getitem (h df) ''total_sales_dollars'' = Inr tsd0 \<and>
     getitem (h df) ''total_dollars'' = Inr td0 \<and>
     getitem (h df) ''total_sales_quantity'' = Inr tsq0 \<and>
     getitem (h df) ''total_quantity'' = Inr tq0 \<and>
     getitem (h' df') ''total_sales_dollars'' = Inr (map (fill (Num 0)) tsd0) \<and>
     getitem (h' df') ''total_dollars'' = Inr (map (fill (Num 0)) td0) \<and>
     getitem (h' df') ''total_sales_quantity'' = Inr (map (fill (Num 0)) tsq0) \<and>
     getitem (h' df') ''total_quantity'' = Inr (map (fill (Num 0)) tq0) \<and>
     getitem (h' df') ''gross_profit'' = Inr gp \<and>
     getitem (h' df') ''gross_margin'' = Inr gm \<and>
     getitem (h' df') ''stock_turnover'' = Inr st \<and>
     getitem (h' df') ''sales_purchase_ratio'' = Inr sp \<and>
     length tsd0 = nrows (h df) \<and> length td0 = nrows (h df) \<and>
     length tsq0 = nrows (h df) \<and> length tq0 = nrows (h df) \<and>
     length gp = nrows (h df) \<and> length gm = nrows (h df) \<and>
     length st = nrows (h df) \<and> length sp = nrows (h df) \<and>
     series_op cell_sub (map (fill (Num 0)) tsd0) (map (fill (Num 0)) td0) = Inr gp \<and>
     series_op cell_truediv gp (series_replace (Num 0) Null (map (fill (Num 0)) tsd0)) = Inr gm \<and>
     series_op cell_truediv (map (fill (Num 0)) tsq0) (series_replace (Num 0) Null (map (fill (Num 0)) tq0)) = Inr st \<and>
     series_op cell_truediv (map (fill (Num 0)) tsd0) (series_replace (Num 0) Null (map (fill (Num 0)) td0)) = Inr sp \<and>
     (\<forall>c v. (c, v) \<in> set (columns (h' df')) \<longrightarrow>
        (c, v) \<in> {(''gross_profit'', gp), (''gross_margin'', gm), (''stock_turnover'', st),
                  (''sales_purchase_ratio'', sp)} \<or> Null \<notin> set v)"
proof -
  from clean_ok_body[OF ne run] have eq: "df' = df" and body: "try_body parse df h = (None, h')"
    by auto
  from try_body_None[OF body] obtain vol tsd td tsq tq gp gm st sp where
    vol: "getitem (h df) ''Volume'' = Inr vol" and
    g1: "getitem (filled parse (h df) vol) ''total_sales_dollars'' = Inr tsd" and
    g2: "getitem (filled parse (h df) vol) ''total_dollars'' = Inr td" and
    g3: "getitem (filled parse (h df) vol) ''total_sales_quantity'' = Inr tsq" and
    g4: "getitem (filled parse (h df) vol) ''total_quantity'' = Inr tq" and
    o1: "series_op cell_sub tsd td = Inr gp" and
    o2: "series_op cell_truediv gp (series_replace (Num 0) Null tsd) = Inr gm" and
    o3: "series_op cell_truediv tsq (series_replace (Num 0) Null tq) = Inr st" and
    o4: "series_op cell_truediv tsd (series_replace (Num 0) Null td) = Inr sp" and
    h': "h' = h(df := setitem (setitem (setitem (setitem (filled parse (h df) vol)
             ''gross_profit'' gp) ''gross_margin'' gm) ''stock_turnover'' st) ''sales_purchase_ratio'' sp)"
    by blast
  from df_ok_filled[OF ok vol] have okf: "df_ok (filled parse (h df) vol)"
    and nf: "nrows (filled parse (h df) vol) = nrows (h df)" by auto
  from getitem_filled[OF _ g1] obtain tsd0 where
    t1: "getitem (h df) ''total_sales_dollars'' = Inr tsd0" "tsd = map (fill (Num 0)) tsd0" by auto
  from getitem_filled[OF _ g2] obtain td0 where
    t2: "getitem (h df) ''total_dollars'' = Inr td0" "td = map (fill (Num 0)) td0" by auto
  from getitem_filled[OF _ g3] obtain tsq0 where
    t3: "getitem (h df) ''total_sales_quantity'' = Inr tsq0" "tsq = map (fill (Num 0)) tsq0" by auto
  from getitem_filled[OF _ g4] obtain tq0 where
    t4: "getitem (h df) ''total_quantity'' = Inr tq0" "tq = map (fill (Num 0)) tq0" by auto
  have l1: "length tsd = nrows (h df)" using getitem_length[OF okf g1] nf by simp
  have l2: "length td = nrows (h df)" using getitem_length[OF okf g2] nf by simp
  have l3: "length tsq = nrows (h df)" using getitem_length[OF okf g3] nf by simp
  have l4: "length tq = nrows (h df)" using getitem_length[OF okf g4] nf by simp
  have l5: "length gp = nrows (h df)" using series_op_Inr[OF o1] l1 l2 by simp
  have l6: "length gm = nrows (h df)" using series_op_Inr[OF o2] l1 l5 by (simp add: series_replace_def)
  have l7: "length st = nrows (h df)" using series_op_Inr[OF o3] l3 l4 by (simp add: series_replace_def)
  have l8: "length sp = nrows (h df)" using series_op_Inr[OF o4] l1 l2 by (simp add: series_replace_def)
  have cols: "(c, v) \<in> {(''gross_profit'', gp), (''gross_margin'', gm), (''stock_turnover'', st),
                  (''sales_purchase_ratio'', sp)} \<or> Null \<notin> set v"
    if "(c, v) \<in> set (columns (h' df'))" for c v
    using that unfolding h' eq
    by (auto dest!: columns_setitem dest: columns_filled)
  show ?thesis
    apply (rule exI[of _ tsd0], rule exI[of _ td0], rule exI[of _ tsq0], rule exI[of _ tq0])
    apply (rule exI[of _ gp], rule exI[of _ gm], rule exI[of _ st], rule exI[of _ sp])
    using eq t1 t2 t3 t4 g1 g2 g3 g4 o1 o2 o3 o4 l1 l2 l3 l4 l5 l6 l7 l8 cols nf
    by (simp add: h' getitem_setitem nrows_setitem)
qed

lemma ex_summary_enriched:
  "clean_vendor_summary ex_parse 0 (ex_store ex_summary) = ([], ex_store ex_enriched, Inr 0)"
  by (simp add: clean_vendor_summary_def df_empty_def ex_store_def ex_summary_def ex_enriched_def
      try_body_def seq_def assign_column_def binop_def unop_def col_def fillna_inplace_def
      getitem_def setitem_def fillna_def fill_def to_numeric_def series_replace_def ex_parse_def)

lemma sub_row:
  "x \<noteq> Null \<Longrightarrow> y \<noteq> Null \<Longrightarrow> cell_sub x y = Inr z \<Longrightarrow> \<exists>a b. x = Num a \<and> y = Num b \<and> z = Num (a - b)"
  by (cases x; cases y) auto

lemma div_row:
  "x \<noteq> Null \<Longrightarrow> y \<noteq> Null \<Longrightarrow> cell_truediv x (if y = Num 0 then Null else y) = Inr z \<Longrightarrow>
     (y = Num 0 \<and> z = Null) \<or> (\<exists>a b. x = Num a \<and> y = Num b \<and> b \<noteq> 0 \<and> z = Num (a / b))"
  by (cases x; cases y) (auto split: if_splits)

lemma div_row_never_zero:
  "cell_truediv x (if y = Num 0 then Null else y) \<noteq> Inl (ZeroDivisionError m)"
  by (cases x; cases y) (auto split: if_splits)


lemma enriched_values:
  assumes ne: "\<not> df_empty (h df)" and ok: "df_ok (h df)"
    and run: "clean_vendor_summary parse df h = ([], h', Inr df')"
  shows "\<exists>tsd td tsq tq gp gm st sp.
     getitem (h' df') ''total_sales_dollars'' = Inr tsd \<and>
     getitem (h' df') ''total_dollars'' = Inr td \<and>
     getitem (h' df') ''total_sales_quantity'' = Inr tsq \<and>
     getitem (h' df') ''total_quantity'' = Inr tq \<and>
     getitem (h' df') ''gross_profit'' = Inr gp \<and>
     getitem (h' df') ''gross_margin'' = Inr gm \<and>
     getitem (h' df') ''stock_turnover'' = Inr st \<and>
     getitem (h' df') ''sales_purchase_ratio'' = Inr sp \<and>
     (\<forall>i<nrows (h' df'). \<exists>a b.
        tsd ! i = Num a \<and> td ! i = Num b \<and> gp ! i = Num (a - b) \<and>
        gm ! i = (if a = 0 then Null else Num ((a - b) / a)) \<and>
        sp ! i = (if b = 0 then Null else Num (a / b)) \<and>
        (if tq ! i = Num 0 then st ! i = Null
         else \<exists>q n. tsq ! i = Num q \<and> tq ! i = Num n \<and> st ! i = Num (q / n)))"
proof -
  from enriched_rows[OF ne ok run] obtain tsd0 td0 tsq0 tq0 gp gm st sp where
    n: "nrows (h' df') = nrows (h df)" and
    g: "getitem (h' df') ''total_sales_dollars'' = Inr (map (fill (Num 0)) tsd0)"
       "getitem (h' df') ''total_dollars'' = Inr (map (fill (Num 0)) td0)"
       "getitem (h' df') ''total_sales_quantity'' = Inr (map (fill (Num 0)) tsq0)"
       "getitem (h' df') ''total_quantity'' = Inr (map (fill (Num 0)) tq0)"
       "getitem (h' df') ''gross_profit'' = Inr gp"
       "getitem (h' df') ''gross_margin'' = Inr gm"
       "getitem (h' df') ''stock_turnover'' = Inr st"
       "getitem (h' df') ''sales_purchase_ratio'' = Inr sp" and
    l: "length tsd0 = nrows (h df)" "length td0 = nrows (h df)"
       "length tsq0 = nrows (h df)" "length tq0 = nrows (h df)"
       "length gp = nrows (h df)" "length gm = nrows (h df)"
       "length st = nrows (h df)" "length sp = nrows (h df)" and
    o1: "series_op cell_sub (map (fill (Num 0)) tsd0) (map (fill (Num 0)) td0) = Inr gp" and
    o2: "series_op cell_truediv gp (series_replace (Num 0) Null (map (fill (Num 0)) tsd0)) = Inr gm" and
    o3: "series_op cell_truediv (map (fill (Num 0)) tsq0)
           (series_replace (Num 0) Null (map (fill (Num 0)) tq0)) = Inr st" and
    o4: "series_op cell_truediv (map (fill (Num 0)) tsd0)
           (series_replace (Num 0) Null (map (fill (Num 0)) td0)) = Inr sp"
    by blast
  have row: "\<exists>a b.
        map (fill (Num 0)) tsd0 ! i = Num a \<and> map (fill (Num 0)) td0 ! i = Num b \<and>
        gp ! i = Num (a - b) \<and>
        gm ! i = (if a = 0 then Null else Num ((a - b) / a)) \<and>
        sp ! i = (if b = 0 then Null else Num (a / b)) \<and>
        (if map (fill (Num 0)) tq0 ! i = Num 0 then st ! i = Null
         else \<exists>q n. map (fill (Num 0)) tsq0 ! i = Num q \<and> map (fill (Num 0)) tq0 ! i = Num n \<and>
                st ! i = Num (q / n))"
    if i: "i < nrows (h df)" for i
  proof -
    let ?x = "fill (Num 0) (tsd0 ! i)" and ?y = "fill (Num 0) (td0 ! i)"
    let ?q = "fill (Num 0) (tsq0 ! i)" and ?n = "fill (Num 0) (tq0 ! i)"
    have e1: "cell_sub ?x ?y = Inr (gp ! i)"
      using series_op_Inr[OF o1] i l by simp
    have e2: "cell_truediv (gp ! i) (if ?x = Num 0 then Null else ?x) = Inr (gm ! i)"
      using series_op_Inr[OF o2] i l by (simp add: series_replace_def)
    have e3: "cell_truediv ?q (if ?n = Num 0 then Null else ?n) = Inr (st ! i)"
      using series_op_Inr[OF o3] i l by (simp add: series_replace_def)
    have e4: "cell_truediv ?x (if ?y = Num 0 then Null else ?y) = Inr (sp ! i)"
      using series_op_Inr[OF o4] i l by (simp add: series_replace_def)
    from sub_row[OF fill_not_Null fill_not_Null e1] obtain a b where
      ab: "?x = Num a" "?y = Num b" "gp ! i = Num (a - b)" by blast
    have gm: "gm ! i = (if a = 0 then Null else Num ((a - b) / a))"
      using e2 ab by (auto split: if_splits)
    have sp: "sp ! i = (if b = 0 then Null else Num (a / b))"
      using e4 ab by (auto split: if_splits)
    have st: "if ?n = Num 0 then st ! i = Null
         else \<exists>q n. ?q = Num q \<and> ?n = Num n \<and> st ! i = Num (q / n)"
      using div_row[OF fill_not_Null fill_not_Null e3] by auto
    from st show ?thesis using ab gm sp i l by (cases "?n = Num 0") simp_all
  qed
  show ?thesis
    apply (rule exI[of _ "map (fill (Num 0)) tsd0"], rule exI[of _ "map (fill (Num 0)) td0"])
    apply (rule exI[of _ "map (fill (Num 0)) tsq0"], rule exI[of _ "map (fill (Num 0)) tq0"])
    apply (rule exI[of _ gp], rule exI[of _ gm], rule exI[of _ st], rule exI[of _ sp])
    using g n row by simp
qed

lemma seq_Some:
  "seq s t h = (Some e, h') \<longleftrightarrow>
     s h = (Some e, h') \<or> (\<exists>h1. s h = (None, h1) \<and> t h1 = (Some e, h'))"
  by (auto simp: seq_def split: prod.splits option.splits)

lemma assign_Some: "assign_column r c rhs h = (Some e, h') \<longleftrightarrow> rhs h = Inl e \<and> h' = h"
  by (auto simp: assign_column_def split: sum.splits)

lemma binop_Inl:
  "binop f a b h = Inl e \<longleftrightarrow>
     a h = Inl e \<or> (\<exists>x. a h = Inr x \<and> (b h = Inl e \<or> (\<exists>y. b h = Inr y \<and> f x y = Inl e)))"
  by (auto simp: binop_def split: sum.splits)

lemma unop_Inl: "unop f a h = Inl e \<longleftrightarrow> a h = Inl e"
  by (auto simp: unop_def split: sum.splits)

lemma col_Inl: "col r c h = Inl e \<longleftrightarrow> e = KeyError c \<and> map_of (columns (h r)) c = None"
  by (auto simp: col_def getitem_def split: option.splits)

lemma sub_never_zero: "series_op cell_sub xs ys \<noteq> Inl (ZeroDivisionError m)"
proof (induction cell_sub xs ys rule: series_op.induct)
  case (1 a as b bs)
  have "cell_sub a b \<noteq> Inl (ZeroDivisionError m)" by (cases a; cases b) auto
  with 1 show ?case by (auto split: sum.splits)
qed auto

lemma truediv_never_zero:
  "series_op cell_truediv xs (series_replace (Num 0) Null ys) \<noteq> Inl (ZeroDivisionError m)"
proof (induction xs arbitrary: ys)
  case Nil
  then show ?case by simp
next
  case (Cons a as)
  show ?case
  proof (cases ys)
    case Nil
    then show ?thesis by (simp add: series_replace_def)
  next
    case (Cons b bs)
    have "cell_truediv a (if b = Num 0 then Null else b) \<noteq> Inl (ZeroDivisionError m)"
      by (rule div_row_never_zero)
    with Cons Cons.IH[of bs] show ?thesis
      by (auto simp: series_replace_def split: sum.splits)
  qed
qed

lemma try_body_never_zero: "fst (try_body parse df h) \<noteq> Some (ZeroDivisionError m)"
proof
  assume a: "fst (try_body parse df h) = Some (ZeroDivisionError m)"
  then obtain h' where "try_body parse df h = (Some (ZeroDivisionError m), h')"
    by (cases "try_body parse df h") auto
  then show False
    by (auto simp: try_body_def seq_Some assign_Some binop_Inl unop_Inl col_Inl fillna_inplace_def
        unop_Inr sub_never_zero truediv_never_zero)
qed

section \<open>The empty table\<close>

text \<open>
  C6. Given an empty table (no rows, or no columns), \<open>clean_vendor_summary\<close> logs one
  warning, returns the reference it was given without raising, and leaves the whole
  store, the table included, as it was: no column is added.
\<close>

theorem clean_empty_unchanged:
  "df_empty (h df) \<Longrightarrow>
   clean_vendor_summary parse df h =
     ([(WARNING, ''Input DataFrame is empty, skipping cleaning process.'')], h, Inr df)"
  by (simp add: clean_vendor_summary_def)

theorem clean_empty_unchanged_witness:
  "df_empty (ex_store ex_no_rows 0) \<and>
   clean_vendor_summary ex_parse 0 (ex_store ex_no_rows) =
     ([(WARNING, ''Input DataFrame is empty, skipping cleaning process.'')], ex_store ex_no_rows, Inr 0)"
  using clean_empty_unchanged [of "ex_store ex_no_rows" 0 ex_parse]
  by (simp add: df_empty_def ex_store_def ex_no_rows_def)

lemma ex_summary_ok: "\<not> df_empty (ex_store ex_summary 0) \<and> df_ok (ex_store ex_summary 0)"
  by (simp add: df_empty_def df_ok_def ex_store_def ex_summary_def)

section \<open>Zero divisors\<close>

text \<open>
  C1, as the code has it. Each ratio is guarded on its own divisor. In every row of a
  table that \<open>clean_vendor_summary\<close> enriched (a well-formed, non-empty table on which
  the function returned normally, without logging an error): where total_sales_dollars is
  zero, gross_margin is null; where total_quantity is zero, stock_turnover is null; where
  total_dollars is zero, sales_purchase_ratio is null. And on no input at all does the
  block raise a division by zero: the guard replaces every zero divisor by null first.
  (sales_purchase_ratio divides by total_dollars, so a zero total_sales_dollars leaves
  it 0, not null: see the counterexample.)
\<close>

theorem zero_divisor_gives_null:
  "(\<forall>m. fst (try_body parse df h) \<noteq> Some (ZeroDivisionError m)) \<and>
   (\<not> df_empty (h df) \<and> df_ok (h df) \<and>
    clean_vendor_summary parse df h = ([], h', Inr df') \<longrightarrow>
    (\<exists>tsd td tq gm st sp.
       getitem (h' df') ''total_sales_dollars'' = Inr tsd \<and>
       getitem (h' df') ''total_dollars'' = Inr td \<and>
       getitem (h' df') ''total_quantity'' = Inr tq \<and>
       getitem (h' df') ''gross_margin'' = Inr gm \<and>
       getitem (h' df') ''stock_turnover'' = Inr st \<and>
       getitem (h' df') ''sales_purchase_ratio'' = Inr sp \<and>
       (\<forall>i<nrows (h' df').
          (tsd ! i = Num 0 \<longrightarrow> gm ! i = Null) \<and>
          (tq ! i = Num 0 \<longrightarrow> st ! i = Null) \<and>
          (td ! i = Num 0 \<longrightarrow> sp ! i = Null))))"
proof (intro conjI allI impI)
  fix m show "fst (try_body parse df h) \<noteq> Some (ZeroDivisionError m)"
    by (rule try_body_never_zero)
next
  assume a: "\<not> df_empty (h df) \<and> df_ok (h df) \<and>
    clean_vendor_summary parse df h = ([], h', Inr df')"
  then have ne: "\<not> df_empty (h df)" and ok: "df_ok (h df)"
    and run: "clean_vendor_summary parse df h = ([], h', Inr df')" by auto
  from enriched_values[OF ne ok run] obtain tsd td tsq tq gp gm st sp where
    g: "getitem (h' df') ''total_sales_dollars'' = Inr tsd"
       "getitem (h' df') ''total_dollars'' = Inr td"
       "getitem (h' df') ''total_quantity'' = Inr tq"
       "getitem (h' df') ''gross_margin'' = Inr gm"
       "getitem (h' df') ''stock_turnover'' = Inr st"
       "getitem (h' df') ''sales_purchase_ratio'' = Inr sp" and
    rows: "\<forall>i<nrows (h' df'). \<exists>a b.
        tsd ! i = Num a \<and> td ! i = Num b \<and> gp ! i = Num (a - b) \<and>
        gm ! i = (if a = 0 then Null else Num ((a - b) / a)) \<and>
        sp ! i = (if b = 0 then Null else Num (a / b)) \<and>
        (if tq ! i = Num 0 then st ! i = Null
         else \<exists>q n. tsq ! i = Num q \<and> tq ! i = Num n \<and> st ! i = Num (q / n))"
    by blast
  have "(tsd ! i = Num 0 \<longrightarrow> gm ! i = Null) \<and> (tq ! i = Num 0 \<longrightarrow> st ! i = Null) \<and>
        (td ! i = Num 0 \<longrightarrow> sp ! i = Null)" if "i < nrows (h' df')" for i
    using rows[rule_format, OF that] by (auto split: if_splits)
  with g show "\<exists>tsd td tq gm st sp.
       getitem (h' df') ''total_sales_dollars'' = Inr tsd \<and>
       getitem (h' df') ''total_dollars'' = Inr td \<and>
       getitem (h' df') ''total_quantity'' = Inr tq \<and>
       getitem (h' df') ''gross_margin'' = Inr gm \<and>
       getitem (h' df') ''stock_turnover'' = Inr st \<and>
       getitem (h' df') ''sales_purchase_ratio'' = Inr sp \<and>
       (\<forall>i<nrows (h' df').
          (tsd ! i = Num 0 \<longrightarrow> gm ! i = Null) \<and>
          (tq ! i = Num 0 \<longrightarrow> st ! i = Null) \<and>
          (td ! i = Num 0 \<longrightarrow> sp ! i = Null))"
    by blast
qed

theorem zero_divisor_gives_null_witness:
  "\<not> df_empty (ex_store ex_summary 0) \<and> df_ok (ex_store ex_summary 0) \<and>
   clean_vendor_summary ex_parse 0 (ex_store ex_summary) = ([], ex_store ex_enriched, Inr 0) \<and>
   (\<exists>tsd td tq gm st sp.
       getitem (ex_store ex_enriched 0) ''total_sales_dollars'' = Inr tsd \<and>
       getitem (ex_store ex_enriched 0) ''total_dollars'' = Inr td \<and>
       getitem (ex_store ex_enriched 0) ''total_quantity'' = Inr tq \<and>
       getitem (ex_store ex_enriched 0) ''gross_margin'' = Inr gm \<and>
       getitem (ex_store ex_enriched 0) ''stock_turnover'' = Inr st \<and>
       getitem (ex_store ex_enriched 0) ''sales_purchase_ratio'' = Inr sp \<and>
       (\<forall>i<nrows (ex_store ex_enriched 0).
          (tsd ! i = Num 0 \<longrightarrow> gm ! i = Null) \<and>
          (tq ! i = Num 0 \<longrightarrow> st ! i = Null) \<and>
          (td ! i = Num 0 \<longrightarrow> sp ! i = Null)))"
  using zero_divisor_gives_null [of ex_parse 0 "ex_store ex_summary" "ex_store ex_enriched" 0]
    ex_summary_ok ex_summary_enriched
  by blast

text \<open>
  The claim as stated asks for a null sales_purchase_ratio where total_sales_dollars is
  zero. In the second row of \<open>ex_summary\<close> total_sales_dollars is 0 after the fill, and
  sales_purchase_ratio is 0 / 30 = 0, not null.
\<close>

theorem sales_purchase_ratio_counterexample:
  "clean_vendor_summary ex_parse 0 (ex_store ex_summary) = ([], ex_store ex_enriched, Inr 0) \<and>
   getitem (ex_store ex_enriched 0) ''total_sales_dollars'' = Inr [Num 48, Num 0] \<and>
   getitem (ex_store ex_enriched 0) ''sales_purchase_ratio'' = Inr [Num (24 / 25), Num 0] \<and>
   [Num 48, Num 0] ! 1 = Num 0 \<and> [Num (24 / 25), Num 0] ! 1 \<noteq> Null"
  using ex_summary_enriched
  by (simp add: ex_store_def ex_enriched_def getitem_def)

section \<open>Nulls after cleaning\<close>

text \<open>
  C5. After \<open>clean_vendor_summary\<close> has enriched a well-formed, non-empty table (it
  returned normally, which needs all expected columns), no column other than gross_margin,
  stock_turnover and sales_purchase_ratio holds a null, and each of these three is null
  in exactly the rows where its divisor (total_sales_dollars, total_quantity,
  total_dollars, as filled) is zero.
\<close>

theorem nulls_only_in_guarded_metrics:
  assumes ne: "\<not> df_empty (h df)" and ok: "df_ok (h df)"
    and run: "clean_vendor_summary parse df h = ([], h', Inr df')"
  shows "(\<forall>c v. (c, v) \<in> set (columns (h' df')) \<and>
            c \<notin> {''gross_margin'', ''stock_turnover'', ''sales_purchase_ratio''} \<longrightarrow>
            Null \<notin> set v) \<and>
   (\<exists>tsd td tq gm st sp.
       getitem (h' df') ''total_sales_dollars'' = Inr tsd \<and>
       getitem (h' df') ''total_dollars'' = Inr td \<and>
       getitem (h' df') ''total_quantity'' = Inr tq \<and>
       getitem (h' df') ''gross_margin'' = Inr gm \<and>
       getitem (h' df') ''stock_turnover'' = Inr st \<and>
       getitem (h' df') ''sales_purchase_ratio'' = Inr sp \<and>
       (\<forall>i<nrows (h' df').
          (gm ! i = Null \<longleftrightarrow> tsd ! i = Num 0) \<and>
          (st ! i = Null \<longleftrightarrow> tq ! i = Num 0) \<and>
          (sp ! i = Null \<longleftrightarrow> td ! i = Num 0)))"
proof -
  from enriched_values[OF ne ok run] obtain tsd td tsq tq gp gm st sp where
    g: "getitem (h' df') ''total_sales_dollars'' = Inr tsd"
       "getitem (h' df') ''total_dollars'' = Inr td"
       "getitem (h' df') ''total_quantity'' = Inr tq"
       "getitem (h' df') ''gross_margin'' = Inr gm"
       "getitem (h' df') ''stock_turnover'' = Inr st"
       "getitem (h' df') ''sales_purchase_ratio'' = Inr sp" and
    gp: "getitem (h' df') ''gross_profit'' = Inr gp" and
    rows: "\<forall>i<nrows (h' df'). \<exists>a b.
        tsd ! i = Num a \<and> td ! i = Num b \<and> gp ! i = Num (a - b) \<and>
        gm ! i = (if a = 0 then Null else Num ((a - b) / a)) \<and>
        sp ! i = (if b = 0 then Null else Num (a / b)) \<and>
        (if tq ! i = Num 0 then st ! i = Null
         else \<exists>q n. tsq ! i = Num q \<and> tq ! i = Num n \<and> st ! i = Num (q / n))"
    by blast
  from enriched_rows[OF ne ok run] obtain gp' gm' st' sp' where
    n: "nrows (h' df') = nrows (h df)" and
    gp': "getitem (h' df') ''gross_profit'' = Inr gp'" and
    lgp: "length gp' = nrows (h df)" and
    cols: "\<forall>c v. (c, v) \<in> set (columns (h' df')) \<longrightarrow>
        (c, v) \<in> {(''gross_profit'', gp'), (''gross_margin'', gm'), (''stock_turnover'', st'),
                  (''sales_purchase_ratio'', sp')} \<or> Null \<notin> set v"
    by blast
  from gp gp' have eq: "gp' = gp" by simp
  have gpn: "Null \<notin> set gp"
  proof
    assume "Null \<in> set gp"
    then obtain i where "i < length gp" "gp ! i = Null" by (auto simp: in_set_conv_nth)
    with rows lgp n eq show False by auto
  qed
  have part1: "\<forall>c v. (c, v) \<in> set (columns (h' df')) \<and>
            c \<notin> {''gross_margin'', ''stock_turnover'', ''sales_purchase_ratio''} \<longrightarrow>
            Null \<notin> set v"
    using cols gpn eq by auto
  have "(gm ! i = Null \<longleftrightarrow> tsd ! i = Num 0) \<and> (st ! i = Null \<longleftrightarrow> tq ! i = Num 0) \<and>
        (sp ! i = Null \<longleftrightarrow> td ! i = Num 0)" if "i < nrows (h' df')" for i
    using rows[rule_format, OF that] by (auto split: if_splits)
  with g part1 show ?thesis by blast
qed

theorem nulls_only_in_guarded_metrics_witness:
  "\<not> df_empty (ex_store ex_summary 0) \<and> df_ok (ex_store ex_summary 0) \<and>
   clean_vendor_summary ex_parse 0 (ex_store ex_summary) = ([], ex_store ex_enriched, Inr 0) \<and>
   (\<exists>tsd td tq gm st sp.
       getitem (ex_store ex_enriched 0) ''total_sales_dollars'' = Inr tsd \<and>
       getitem (ex_store ex_enriched 0) ''total_dollars'' = Inr td \<and>
       getitem (ex_store ex_enriched 0) ''total_quantity'' = Inr tq \<and>
       getitem (ex_store ex_enriched 0) ''gross_margin'' = Inr gm \<and>
       getitem (ex_store ex_enriched 0) ''stock_turnover'' = Inr st \<and>
       getitem (ex_store ex_enriched 0) ''sales_purchase_ratio'' = Inr sp \<and>
       (\<forall>i<nrows (ex_store ex_enriched 0).
          (gm ! i = Null \<longleftrightarrow> tsd ! i = Num 0) \<and>
          (st ! i = Null \<longleftrightarrow> tq ! i = Num 0) \<and>
          (sp ! i = Null \<longleftrightarrow> td ! i = Num 0)))"
proof -
  have ne: "\<not> df_empty (ex_store ex_summary 0)" and ok: "df_ok (ex_store ex_summary 0)"
    using ex_summary_ok by simp_all
  show ?thesis
    using ne ok ex_summary_enriched
      nulls_only_in_guarded_metrics [OF ne ok ex_summary_enriched, THEN conjunct2]
    by (intro conjI) assumption+
qed

text \<open>
  C10. After a successful enrichment of a well-formed, non-empty table, gross_profit is
  never null: in every row it is total_sales_dollars minus total_dollars of the filled
  table; in a row whose total_sales_dollars was null on entry (no sales) it is the
  negation of total_dollars; and a column that holds a null is one of the three ratios.
\<close>

theorem gross_profit_never_null:
  assumes ne: "\<not> df_empty (h df)" and ok: "df_ok (h df)"
    and run: "clean_vendor_summary parse df h = ([], h', Inr df')"
  shows "\<exists>tsd0 tsd td gp.
     getitem (h df) ''total_sales_dollars'' = Inr tsd0 \<and>
     getitem (h' df') ''total_sales_dollars'' = Inr tsd \<and>
     getitem (h' df') ''total_dollars'' = Inr td \<and>
     getitem (h' df') ''gross_profit'' = Inr gp \<and>
     length gp = nrows (h' df') \<and> Null \<notin> set gp \<and>
     (\<forall>i<nrows (h' df'). \<exists>a b.
        tsd ! i = Num a \<and> td ! i = Num b \<and> gp ! i = Num (a - b) \<and>
        (tsd0 ! i = Null \<longrightarrow> gp ! i = Num (- b))) \<and>
     (\<forall>c v. (c, v) \<in> set (columns (h' df')) \<and> Null \<in> set v \<longrightarrow>
        c \<in> {''gross_margin'', ''stock_turnover'', ''sales_purchase_ratio''})"
proof -
  from enriched_values[OF ne ok run] obtain tsd td tsq tq gp gm st sp where
    g: "getitem (h' df') ''total_sales_dollars'' = Inr tsd"
       "getitem (h' df') ''total_dollars'' = Inr td"
       "getitem (h' df') ''gross_profit'' = Inr gp" and
    rows: "\<forall>i<nrows (h' df'). \<exists>a b.
        tsd ! i = Num a \<and> td ! i = Num b \<and> gp ! i = Num (a - b) \<and>
        gm ! i = (if a = 0 then Null else Num ((a - b) / a)) \<and>
        sp ! i = (if b = 0 then Null else Num (a / b)) \<and>
        (if tq ! i = Num 0 then st ! i = Null
         else \<exists>q n. tsq ! i = Num q \<and> tq ! i = Num n \<and> st ! i = Num (q / n))"
    by blast
  from enriched_rows[OF ne ok run] obtain tsd0 gp' gm' st' sp' where
    n: "nrows (h' df') = nrows (h df)" and
    t0: "getitem (h df) ''total_sales_dollars'' = Inr tsd0" and
    t1: "getitem (h' df') ''total_sales_dollars'' = Inr (map (fill (Num 0)) tsd0)" and
    l0: "length tsd0 = nrows (h df)" and
    gp': "getitem (h' df') ''gross_profit'' = Inr gp'" and
    lgp: "length gp' = nrows (h df)" and
    cols: "\<forall>c v. (c, v) \<in> set (columns (h' df')) \<longrightarrow>
        (c, v) \<in> {(''gross_profit'', gp'), (''gross_margin'', gm'), (''stock_turnover'', st'),
                  (''sales_purchase_ratio'', sp')} \<or> Null \<notin> set v"
    by blast
  from g gp' have eq: "gp' = gp" by simp
  from g t1 have tsd: "tsd = map (fill (Num 0)) tsd0" by simp
  have gpn: "Null \<notin> set gp"
  proof
    assume "Null \<in> set gp"
    then obtain i where "i < length gp" "gp ! i = Null" by (auto simp: in_set_conv_nth)
    with rows lgp n eq show False by auto
  qed
  have row: "\<exists>a b. tsd ! i = Num a \<and> td ! i = Num b \<and> gp ! i = Num (a - b) \<and>
        (tsd0 ! i = Null \<longrightarrow> gp ! i = Num (- b))" if i: "i < nrows (h' df')" for i
  proof -
    from rows[rule_format, OF i] obtain a b where
      ab: "tsd ! i = Num a" "td ! i = Num b" "gp ! i = Num (a - b)" by blast
    have "a = 0" if "tsd0 ! i = Null"
      using that ab(1) i n l0 by (simp add: tsd fill_def)
    with ab show ?thesis by auto
  qed
  have part2: "\<forall>c v. (c, v) \<in> set (columns (h' df')) \<and> Null \<in> set v \<longrightarrow>
        c \<in> {''gross_margin'', ''stock_turnover'', ''sales_purchase_ratio''}"
    using cols gpn eq by auto
  have lg: "length gp = nrows (h' df')" using lgp n eq by simp
  have rows': "\<forall>i<nrows (h' df'). \<exists>a b. tsd ! i = Num a \<and> td ! i = Num b \<and> gp ! i = Num (a - b) \<and>
        (tsd0 ! i = Null \<longrightarrow> gp ! i = Num (- b))"
    using row by blast
  show ?thesis
    apply (rule exI[of _ tsd0], rule exI[of _ tsd], rule exI[of _ td], rule exI[of _ gp])
    using t0 g lg gpn rows' part2 by simp
qed

theorem gross_profit_never_null_witness:
  "\<not> df_empty (ex_store ex_summary 0) \<and> df_ok (ex_store ex_summary 0) \<and>
   clean_vendor_summary ex_parse 0 (ex_store ex_summary) = ([], ex_store ex_enriched, Inr 0) \<and>
   (\<exists>tsd0 tsd td gp.
     getitem (ex_store ex_summary 0) ''total_sales_dollars'' = Inr tsd0 \<and>
     getitem (ex_store ex_enriched 0) ''total_sales_dollars'' = Inr tsd \<and>
     getitem (ex_store ex_enriched 0) ''total_dollars'' = Inr td \<and>
     getitem (ex_store ex_enriched 0) ''gross_profit'' = Inr gp \<and>
     length gp = nrows (ex_store ex_enriched 0) \<and> Null \<notin> set gp \<and>
     (\<forall>i<nrows (ex_store ex_enriched 0). \<exists>a b.
        tsd ! i = Num a \<and> td ! i = Num b \<and> gp ! i = Num (a - b) \<and>
        (tsd0 ! i = Null \<longrightarrow> gp ! i = Num (- b))) \<and>
     (\<forall>c v. (c, v) \<in> set (columns (ex_store ex_enriched 0)) \<and> Null \<in> set v \<longrightarrow>
        c \<in> {''gross_margin'', ''stock_turnover'', ''sales_purchase_ratio''}))"
proof -
  have ne: "\<not> df_empty (ex_store ex_summary 0)" and ok: "df_ok (ex_store ex_summary 0)"
    using ex_summary_ok by simp_all
  show ?thesis
    using ne ok ex_summary_enriched gross_profit_never_null [OF ne ok ex_summary_enriched]
    by (intro conjI) assumption+
qed




















section \<open>A missing column\<close>




section \<open>The argument is changed in place\<close>



section \<open>The query: groups, joins and order\<close>

lemma group_keys_set: "set (group_keys key rows) = key ` set rows"
  by (simp add: group_keys_def)

lemma group_keys_distinct: "distinct (group_keys key rows)"
  by (simp add: group_keys_def)

lemma group_of_hd:
  assumes "k \<in> set (group_keys key rows)"
  shows "group_of key rows k \<noteq> [] \<and> key (hd (group_of key rows k)) = k \<and>
         hd (group_of key rows k) \<in> set rows"
proof -
  from assms obtain x where x: "x \<in> set rows" "key x = k" by (auto simp: group_keys_set)
  then have ne: "group_of key rows k \<noteq> []" by (auto simp: group_of_def filter_empty_conv)
  then have "hd (group_of key rows k) \<in> set (group_of key rows k)" by (rule hd_in_set)
  with ne show ?thesis by (auto simp: group_of_def)
qed

lemma left_join_fst:
  "(\<forall>x\<in>set xs. length (filter (on x) ys) \<le> 1) \<Longrightarrow> map fst (left_join on xs ys) = xs"
proof (induction xs)
  case Nil
  then show ?case by (simp add: left_join_def)
next
  case (Cons x xs)
  then have ih: "map fst (left_join on xs ys) = xs" by simp
  from Cons.prems have "length (filter (on x) ys) \<le> 1" by simp
  then have "filter (on x) ys = [] \<or> (\<exists>y. filter (on x) ys = [y])"
    by (cases "filter (on x) ys") (auto simp: Suc_le_eq)
  with ih show ?case by (auto simp: left_join_def Let_def)
qed

lemma left_join_set:
  "(x, m) \<in> set (left_join on xs ys) \<longleftrightarrow>
     x \<in> set xs \<and> (case m of None \<Rightarrow> filter (on x) ys = [] | Some y \<Rightarrow> y \<in> set ys \<and> on x y)"
  by (cases m) (force simp: left_join_def Let_def filter_empty_conv split: if_splits)+

lemma filter_distinct_key: "distinct (map f xs) \<Longrightarrow> length (filter (\<lambda>x. f x = k) xs) \<le> 1"
  by (induction xs) (auto simp: filter_empty_conv image_iff)

lemma filter_le_one_mono:
  "(\<And>x. P x \<Longrightarrow> Q x) \<Longrightarrow> length (filter Q xs) \<le> 1 \<Longrightarrow> length (filter P xs) \<le> 1"
proof -
  assume pq: "\<And>x. P x \<Longrightarrow> Q x" and q: "length (filter Q xs) \<le> 1"
  have "filter P xs = filter P (filter Q xs)" using pq by (auto intro: filter_cong)
  then have "length (filter P xs) \<le> length (filter Q xs)" by (metis length_filter_le)
  with q show ?thesis by simp
qed

lemma left_join_total: "x \<in> set xs \<Longrightarrow> \<exists>m. (x, m) \<in> set (left_join on xs ys)"
proof (cases "filter (on x) ys")
  case Nil
  assume "x \<in> set xs"
  with Nil have "(x, None) \<in> set (left_join on xs ys)" by (simp add: left_join_set)
  then show ?thesis ..
next
  case (Cons y zs)
  assume x: "x \<in> set xs"
  from Cons have "y \<in> set (filter (on x) ys)" by simp
  with x have "(x, Some y) \<in> set (left_join on xs ys)" by (simp add: left_join_set)
  then show ?thesis ..
qed

lemma purchase_join_set:
  "(p, pp) \<in> set (purchase_join ps pps) \<longleftrightarrow>
     p \<in> set ps \<and> pp \<in> set pps \<and> sql_eq (p_Brand p) (pp_Brand pp) \<and> gt_zero (p_PurchasePrice p)"
  by (auto simp: purchase_join_def)

lemma purchase_summary_keys:
  "map (\<lambda>r. (ps_VendorNumber r, ps_VendorName r, ps_Brand r)) (purchase_summary ps pps) =
     group_keys purchase_key (purchase_join ps pps)"
proof -
  have "(\<lambda>r. (ps_VendorNumber r, ps_VendorName r, ps_Brand r))
          (purchase_group (group_of purchase_key (purchase_join ps pps) k)) = k"
    if "k \<in> set (group_keys purchase_key (purchase_join ps pps))" for k
    using group_of_hd[OF that] by (simp add: purchase_group_def purchase_key_def)
  then show ?thesis
    by (simp add: purchase_summary_def map_idI)
qed

lemma sales_summary_keys:
  "map (\<lambda>s. (ss_VendorNo s, ss_Brand s)) (sales_summary ss) = group_keys sales_key ss"
  by (simp add: sales_summary_def sales_group_def comp_def)

lemma freightsummary_keys:
  "map f_vendorNumber (freightsummary rows) = group_keys i_VendorNumber rows"
  by (simp add: freightsummary_def comp_def)

lemma on_sales_le_one: "length (filter (on_sales p) (sales_summary ss)) \<le> 1"
proof (rule filter_le_one_mono)
  show "on_sales p s \<Longrightarrow> (ss_VendorNo s, ss_Brand s) = (ps_VendorNumber p, ps_Brand p)" for s
    by (auto simp: on_sales_def sql_eq_def)
  have "distinct (map (\<lambda>s. (ss_VendorNo s, ss_Brand s)) (sales_summary ss))"
    by (simp only: sales_summary_keys group_keys_distinct)
  then show "length (filter (\<lambda>s. (ss_VendorNo s, ss_Brand s) = (ps_VendorNumber p, ps_Brand p))
      (sales_summary ss)) \<le> 1"
    by (rule filter_distinct_key)
qed

lemma on_freight_le_one: "length (filter (on_freight x) (freightsummary rows)) \<le> 1"
proof (rule filter_le_one_mono)
  show "on_freight x f \<Longrightarrow> f_vendorNumber f = ps_VendorNumber (fst x)" for f
    by (auto simp: on_freight_def sql_eq_def)
  have "distinct (map f_vendorNumber (freightsummary rows))"
    by (simp only: freightsummary_keys group_keys_distinct)
  then show "length (filter (\<lambda>f. f_vendorNumber f = ps_VendorNumber (fst x)) (freightsummary rows)) \<le> 1"
    by (rule filter_distinct_key)
qed

lemma distinct_map_insort:
  "distinct (map f (insort_key g x xs)) = (f x \<notin> f ` set xs \<and> distinct (map f xs))"
  by (induction xs) (auto simp: set_insort_key)

lemma distinct_map_sort: "distinct (map f (sort_key g xs)) = distinct (map f xs)"
  by (induction xs) (simp_all add: distinct_map_insort)

text \<open>The joined rows before the ORDER BY.\<close>

lemma joined_purchases:
  "map (\<lambda>x. fst (fst x))
     (left_join on_freight (left_join on_sales (purchase_summary ps pps) (sales_summary ss))
        (freightsummary rows)) = purchase_summary ps pps"
proof -
  have a: "map fst (left_join on_sales (purchase_summary ps pps) (sales_summary ss)) =
      purchase_summary ps pps"
    by (rule left_join_fst) (intro ballI on_sales_le_one)
  have b: "map fst (left_join on_freight (left_join on_sales (purchase_summary ps pps) (sales_summary ss))
        (freightsummary rows)) = left_join on_sales (purchase_summary ps pps) (sales_summary ss)"
    by (rule left_join_fst) (intro ballI on_freight_le_one)
  have "map (\<lambda>x. fst (fst x))
     (left_join on_freight (left_join on_sales (purchase_summary ps pps) (sales_summary ss))
        (freightsummary rows)) =
     map fst (map fst (left_join on_freight (left_join on_sales (purchase_summary ps pps) (sales_summary ss))
        (freightsummary rows)))" by (simp add: comp_def)
  with a b show ?thesis by simp
qed

lemma vendor_rows_keys:
  "distinct (map (\<lambda>x. (ps_VendorNumber (fst (fst x)), ps_VendorName (fst (fst x)), ps_Brand (fst (fst x))))
      (vendor_rows db)) \<and>
   set (map (\<lambda>x. (ps_VendorNumber (fst (fst x)), ps_VendorName (fst (fst x)), ps_Brand (fst (fst x))))
      (vendor_rows db)) = purchase_key ` set (purchase_join (purchases db) (purchase_prices db))"
proof -
  let ?J = "left_join on_freight
          (left_join on_sales (purchase_summary (purchases db) (purchase_prices db))
             (sales_summary (sales db)))
          (freightsummary (vendor_invoice db))"
  let ?k = "\<lambda>r. (ps_VendorNumber r, ps_VendorName r, ps_Brand r)"
  have m: "map (\<lambda>x. ?k (fst (fst x))) ?J = group_keys purchase_key (purchase_join (purchases db) (purchase_prices db))"
  proof -
    have "map (\<lambda>x. ?k (fst (fst x))) ?J = map ?k (map (\<lambda>x. fst (fst x)) ?J)" by (simp add: comp_def)
    then show ?thesis by (simp only: joined_purchases purchase_summary_keys)
  qed
  have d: "distinct (map (\<lambda>x. ?k (fst (fst x))) (vendor_rows db))"
    unfolding vendor_rows_def distinct_map_sort m by (rule group_keys_distinct)
  have "set (map (\<lambda>x. ?k (fst (fst x))) (vendor_rows db)) = set (map (\<lambda>x. ?k (fst (fst x))) ?J)"
    by (simp add: vendor_rows_def)
  then have s: "set (map (\<lambda>x. ?k (fst (fst x))) (vendor_rows db)) =
      purchase_key ` set (purchase_join (purchases db) (purchase_prices db))"
    by (simp only: m group_keys_set)
  from d s show ?thesis by simp
qed

lemma create_ok:
  "conn_fault conn = None \<Longrightarrow> conn_store conn = Some db \<Longrightarrow>
   create_vendor_summary conn =
     ([(INFO, ''Attempting to create vendor summary DataFrame.''),
       (INFO, ''Vendor summary DataFrame created successfully.'')],
      Inr (query_frame (vendor_rows db)))"
  by (simp add: create_vendor_summary_def read_sql_query_def)

lemma query_frame_columns:
  "nrows (query_frame rows) = length rows"
  "getitem (query_frame rows) ''VendorNumber'' = Inr (map (\<lambda>x. ps_VendorNumber (fst (fst x))) rows)"
  "getitem (query_frame rows) ''VendorName'' = Inr (map (\<lambda>x. ps_VendorName (fst (fst x))) rows)"
  "getitem (query_frame rows) ''Brand'' = Inr (map (\<lambda>x. ps_Brand (fst (fst x))) rows)"
  "getitem (query_frame rows) ''total_sales_quantity'' = Inr (map (sales_cell ss_total_sales_quantity) rows)"
  "getitem (query_frame rows) ''total_sales_dollars'' = Inr (map (sales_cell ss_total_sales_dollars) rows)"
  "getitem (query_frame rows) ''total_sales_price'' = Inr (map (sales_cell ss_total_sales_price) rows)"
  "getitem (query_frame rows) ''total_excise_tax'' = Inr (map (sales_cell ss_total_excise_tax) rows)"
  "getitem (query_frame rows) ''freight_cost'' = Inr (map freight_cell rows)"
  by (simp_all add: query_frame_def getitem_def)

lemma zip_map_same: "zip (map f xs) (map g xs) = map (\<lambda>x. (f x, g x)) xs"
  by (induction xs) auto

lemma rows_sales_none:
  assumes x: "x \<in> set (vendor_rows db)"
    and no: "\<forall>s\<in>set (sales db). \<not> (sql_eq (ps_VendorNumber (fst (fst x))) (s_VendorNo s) \<and>
                 sql_eq (ps_Brand (fst (fst x))) (s_Brand s))"
  shows "snd (fst x) = None"
proof (cases "snd (fst x)")
  case None
  then show ?thesis .
next
  case (Some y)
  obtain a f where xa: "x = (a, f)" by (cases x)
  obtain ps s where a: "a = (ps, s)" by (cases a)
  from x xa have "(a, f) \<in> set (left_join on_freight
          (left_join on_sales (purchase_summary (purchases db) (purchase_prices db))
             (sales_summary (sales db)))
          (freightsummary (vendor_invoice db)))"
    by (simp add: vendor_rows_def)
  then have "a \<in> set (left_join on_sales (purchase_summary (purchases db) (purchase_prices db))
             (sales_summary (sales db)))"
    by (simp add: left_join_set)
  with a Some xa have y: "y \<in> set (sales_summary (sales db))" and on: "on_sales ps y"
    by (simp_all add: left_join_set)
  have "set (map (\<lambda>s. (ss_VendorNo s, ss_Brand s)) (sales_summary (sales db))) =
      sales_key ` set (sales db)"
    by (simp only: sales_summary_keys group_keys_set)
  then have "(\<lambda>s. (ss_VendorNo s, ss_Brand s)) ` set (sales_summary (sales db)) =
      sales_key ` set (sales db)" by simp
  with y have "(ss_VendorNo y, ss_Brand y) \<in> sales_key ` set (sales db)" by blast
  then obtain s0 where s0: "s0 \<in> set (sales db)" "s_VendorNo s0 = ss_VendorNo y" "s_Brand s0 = ss_Brand y"
    by (auto simp: sales_key_def)
  with on no xa a show ?thesis by (auto simp: on_sales_def)
qed

lemma rows_freight_none:
  assumes x: "x \<in> set (vendor_rows db)"
    and no: "\<forall>f\<in>set (vendor_invoice db). \<not> sql_eq (ps_VendorNumber (fst (fst x))) (i_VendorNumber f)"
  shows "snd x = None"
proof (cases "snd x")
  case None
  then show ?thesis .
next
  case (Some y)
  obtain a f where xa: "x = (a, f)" by (cases x)
  from x xa have "(a, f) \<in> set (left_join on_freight
          (left_join on_sales (purchase_summary (purchases db) (purchase_prices db))
             (sales_summary (sales db)))
          (freightsummary (vendor_invoice db)))"
    by (simp add: vendor_rows_def)
  with Some xa have y: "y \<in> set (freightsummary (vendor_invoice db))" and on: "on_freight a y"
    by (simp_all add: left_join_set)
  have "set (map f_vendorNumber (freightsummary (vendor_invoice db))) =
      i_VendorNumber ` set (vendor_invoice db)"
    by (simp only: freightsummary_keys group_keys_set)
  then have "f_vendorNumber ` set (freightsummary (vendor_invoice db)) =
      i_VendorNumber ` set (vendor_invoice db)" by simp
  with y have "f_vendorNumber y \<in> i_VendorNumber ` set (vendor_invoice db)" by blast
  then obtain f0 where "f0 \<in> set (vendor_invoice db)" "i_VendorNumber f0 = f_vendorNumber y"
    by auto
  with on no xa show ?thesis by (auto simp: on_freight_def)
qed

lemma rows_purchase_present:
  assumes "p \<in> set (purchases db)" "gt_zero (p_PurchasePrice p)"
    "pp \<in> set (purchase_prices db)" "sql_eq (p_Brand p) (pp_Brand pp)"
  shows "\<exists>x\<in>set (vendor_rows db). ps_VendorNumber (fst (fst x)) = p_VendorNumber p \<and>
     ps_VendorName (fst (fst x)) = p_VendorName p \<and> ps_Brand (fst (fst x)) = p_Brand p"
proof -
  let ?k = "\<lambda>x. (ps_VendorNumber (fst (fst x)), ps_VendorName (fst (fst x)), ps_Brand (fst (fst x)))"
  from assms have "(p, pp) \<in> set (purchase_join (purchases db) (purchase_prices db))"
    by (simp add: purchase_join_set)
  then have "purchase_key (p, pp) \<in> purchase_key ` set (purchase_join (purchases db) (purchase_prices db))"
    by (rule imageI)
  with vendor_rows_keys[of db] have "purchase_key (p, pp) \<in> set (map ?k (vendor_rows db))"
    by simp
  then obtain x where "x \<in> set (vendor_rows db)" "?k x = purchase_key (p, pp)" by auto
  then show ?thesis by (auto simp: purchase_key_def)
qed

lemma ex_rows: "length (vendor_rows ex_db) = 2"
  by (simp add: vendor_rows_def ex_db_def ex_purchase_def left_join_def purchase_summary_def
      sales_summary_def freightsummary_def group_keys_def group_of_def purchase_join_def
      purchase_key_def sql_eq_def gt_zero_def on_sales_def on_freight_def)


lemmas query_simps = vendor_rows_def left_join_def purchase_summary_def
  sales_summary_def freightsummary_def group_keys_def group_of_def purchase_join_def
  purchase_key_def purchase_group_def sql_eq_def gt_zero_def on_sales_def on_freight_def
  order_key_def sql_sum_def

lemma ex_pairs:
  "{(v, b). \<exists>p\<in>set (purchases ex_db). \<exists>pp\<in>set (purchase_prices ex_db).
      p_VendorNumber p = v \<and> p_Brand p = b \<and> gt_zero (p_PurchasePrice p) \<and>
      sql_eq b (pp_Brand pp)} = {(Num 1, Num 10)}"
  by (auto simp: ex_db_def ex_purchase_def gt_zero_def sql_eq_def)

lemma ex_conn_ok: "conn_fault ex_conn = None" "conn_store ex_conn = Some ex_db"
  by (simp_all add: ex_conn_def)

lemma ex_names:
  "getitem (query_frame (vendor_rows ex_db)) ''VendorName'' = Inr [Str ''ALPHA'', Str ''ALPHA INC'']"
  by (simp add: query_frame_columns query_simps ex_db_def ex_purchase_def less_eq_prod_def)

lemma ex_purchase_facts:
  "ex_purchase ''ALPHA'' 5 \<in> set (purchases ex_db)"
  "gt_zero (p_PurchasePrice (ex_purchase ''ALPHA'' 5))"
  "\<lparr>pp_Brand = Num 10, pp_Volume = Str ''750'', pp_Price = Some 12\<rparr> \<in> set (purchase_prices ex_db)"
  "sql_eq (p_Brand (ex_purchase ''ALPHA'' 5))
     (pp_Brand \<lparr>pp_Brand = Num 10, pp_Volume = Str ''750'', pp_Price = Some 12\<rparr>)"
  by (simp_all add: ex_db_def ex_purchase_def gt_zero_def sql_eq_def)

section \<open>Errors of the query\<close>

text \<open>
  C2. Whatever error running the query raises (an exception of class Exception: a closed
  or faulty connection, a missing table or column), \<open>create_vendor_summary\<close> catches
  it, logs it at level ERROR with its message, and returns the empty \<open>pd.DataFrame()\<close>;
  the exception does not reach the caller.
\<close>

theorem query_errors_are_caught:
  assumes "read_sql_query conn = Inl e" and "is_Exception e"
  shows "create_vendor_summary conn =
     ([(INFO, ''Attempting to create vendor summary DataFrame.''),
       (ERROR, ''Error executing SQL query: '' @ exn_str e)],
      Inr DataFrame) \<and> df_empty DataFrame"
  using assms by (simp add: create_vendor_summary_def df_empty_def DataFrame_def)

theorem query_errors_are_caught_witness:
  "read_sql_query ex_closed = Inl (ProgrammingError ''Cannot operate on a closed database.'') \<and>
   is_Exception (ProgrammingError ''Cannot operate on a closed database.'') \<and>
   create_vendor_summary ex_closed =
     ([(INFO, ''Attempting to create vendor summary DataFrame.''),
       (ERROR, ''Error executing SQL query: '' @
          exn_str (ProgrammingError ''Cannot operate on a closed database.''))],
      Inr DataFrame) \<and> df_empty DataFrame"
proof -
  have r: "read_sql_query ex_closed = Inl (ProgrammingError ''Cannot operate on a closed database.'')"
    by (simp add: read_sql_query_def ex_closed_def)
  have i: "is_Exception (ProgrammingError ''Cannot operate on a closed database.'')" by simp
  from query_errors_are_caught [OF r i] r i show ?thesis by (intro conjI) simp_all
qed

section \<open>Rows of the result\<close>

text \<open>
  C4, as the code has it. The query groups by vendor number, vendor name and brand, so
  the result has exactly one row per distinct (vendor number, vendor name, brand) triple
  that has a purchase row with purchase price > 0 whose brand matches a price-reference
  row: the triples of its rows are distinct, they are exactly those triples, and the row
  count is their number.
\<close>

theorem one_row_per_vendor_name_brand:
  assumes "conn_fault conn = None" and "conn_store conn = Some db"
  shows "\<exists>lg df vn nm br. create_vendor_summary conn = (lg, Inr df) \<and>
     getitem df ''VendorNumber'' = Inr vn \<and> getitem df ''VendorName'' = Inr nm \<and>
     getitem df ''Brand'' = Inr br \<and>
     length vn = nrows df \<and> length nm = nrows df \<and> length br = nrows df \<and>
     distinct (zip vn (zip nm br)) \<and>
     set (zip vn (zip nm br)) =
       {(v, n, b). \<exists>p\<in>set (purchases db). \<exists>pp\<in>set (purchase_prices db).
          p_VendorNumber p = v \<and> p_VendorName p = n \<and> p_Brand p = b \<and>
          gt_zero (p_PurchasePrice p) \<and> sql_eq b (pp_Brand pp)} \<and>
     nrows df =
       card {(v, n, b). \<exists>p\<in>set (purchases db). \<exists>pp\<in>set (purchase_prices db).
          p_VendorNumber p = v \<and> p_VendorName p = n \<and> p_Brand p = b \<and>
          gt_zero (p_PurchasePrice p) \<and> sql_eq b (pp_Brand pp)}"
proof -
  let ?rows = "vendor_rows db"
  let ?k = "\<lambda>x. (ps_VendorNumber (fst (fst x)), ps_VendorName (fst (fst x)), ps_Brand (fst (fst x)))"
  let ?S = "{(v, n, b). \<exists>p\<in>set (purchases db). \<exists>pp\<in>set (purchase_prices db).
          p_VendorNumber p = v \<and> p_VendorName p = n \<and> p_Brand p = b \<and>
          gt_zero (p_PurchasePrice p) \<and> sql_eq b (pp_Brand pp)}"
  have S: "purchase_key ` set (purchase_join (purchases db) (purchase_prices db)) = ?S"
  proof (intro set_eqI iffI)
    fix k assume "k \<in> purchase_key ` set (purchase_join (purchases db) (purchase_prices db))"
    then obtain p pp where "(p, pp) \<in> set (purchase_join (purchases db) (purchase_prices db))"
      and "k = purchase_key (p, pp)" by auto
    then show "k \<in> ?S" by (auto simp: purchase_key_def purchase_join_set)
  next
    fix k assume "k \<in> ?S"
    then obtain p pp where p: "p \<in> set (purchases db)" "pp \<in> set (purchase_prices db)"
      "gt_zero (p_PurchasePrice p)" "sql_eq (p_Brand p) (pp_Brand pp)"
      and k: "k = (p_VendorNumber p, p_VendorName p, p_Brand p)" by auto
    from p have "(p, pp) \<in> set (purchase_join (purchases db) (purchase_prices db))"
      by (simp add: purchase_join_set)
    then have "purchase_key (p, pp) \<in> purchase_key ` set (purchase_join (purchases db) (purchase_prices db))"
      by (rule imageI)
    with k show "k \<in> purchase_key ` set (purchase_join (purchases db) (purchase_prices db))"
      by (simp add: purchase_key_def)
  qed
  from vendor_rows_keys[of db] S have d: "distinct (map ?k ?rows)" and s: "set (map ?k ?rows) = ?S"
    by simp_all
  have z: "zip (map (\<lambda>x. ps_VendorNumber (fst (fst x))) ?rows)
             (zip (map (\<lambda>x. ps_VendorName (fst (fst x))) ?rows)
                  (map (\<lambda>x. ps_Brand (fst (fst x))) ?rows)) = map ?k ?rows"
    by (simp add: zip_map_same)
  have c: "length ?rows = card ?S"
    using distinct_card[OF d] s by simp
  from create_ok[OF assms] d s c show ?thesis
    by (simp add: query_frame_columns z)
qed

theorem one_row_per_vendor_name_brand_witness:
  "conn_fault ex_conn = None \<and> conn_store ex_conn = Some ex_db \<and>
   (\<exists>lg df vn nm br. create_vendor_summary ex_conn = (lg, Inr df) \<and>
     getitem df ''VendorNumber'' = Inr vn \<and> getitem df ''VendorName'' = Inr nm \<and>
     getitem df ''Brand'' = Inr br \<and>
     length vn = nrows df \<and> length nm = nrows df \<and> length br = nrows df \<and>
     distinct (zip vn (zip nm br)) \<and>
     set (zip vn (zip nm br)) =
       {(v, n, b). \<exists>p\<in>set (purchases ex_db). \<exists>pp\<in>set (purchase_prices ex_db).
          p_VendorNumber p = v \<and> p_VendorName p = n \<and> p_Brand p = b \<and>
          gt_zero (p_PurchasePrice p) \<and> sql_eq b (pp_Brand pp)} \<and>
     nrows df =
       card {(v, n, b). \<exists>p\<in>set (purchases ex_db). \<exists>pp\<in>set (purchase_prices ex_db).
          p_VendorNumber p = v \<and> p_VendorName p = n \<and> p_Brand p = b \<and>
          gt_zero (p_PurchasePrice p) \<and> sql_eq b (pp_Brand pp)})"
  using ex_conn_ok one_row_per_vendor_name_brand [of ex_conn ex_db, OF ex_conn_ok]
  by (intro conjI) assumption+

text \<open>
  The claim as stated counts (vendor, brand) pairs. In \<open>ex_db\<close> vendor 1 is recorded
  under two names for brand 10: one pair, two rows.
\<close>

theorem one_row_per_pair_counterexample:
  "create_vendor_summary ex_conn =
     ([(INFO, ''Attempting to create vendor summary DataFrame.''),
       (INFO, ''Vendor summary DataFrame created successfully.'')],
      Inr (query_frame (vendor_rows ex_db))) \<and>
   nrows (query_frame (vendor_rows ex_db)) = 2 \<and>
   getitem (query_frame (vendor_rows ex_db)) ''VendorName'' = Inr [Str ''ALPHA'', Str ''ALPHA INC''] \<and>
   card {(v, b). \<exists>p\<in>set (purchases ex_db). \<exists>pp\<in>set (purchase_prices ex_db).
      p_VendorNumber p = v \<and> p_Brand p = b \<and> gt_zero (p_PurchasePrice p) \<and>
      sql_eq b (pp_Brand pp)} = 1"
proof -
  have c: "card {(v, b). \<exists>p\<in>set (purchases ex_db). \<exists>pp\<in>set (purchase_prices ex_db).
      p_VendorNumber p = v \<and> p_Brand p = b \<and> gt_zero (p_PurchasePrice p) \<and>
      sql_eq b (pp_Brand pp)} = 1"
    unfolding ex_pairs by simp
  have n: "nrows (query_frame (vendor_rows ex_db)) = 2"
    using ex_rows by (simp add: query_frame_columns)
  from create_ok[OF ex_conn_ok] n ex_names c show ?thesis by (intro conjI)
qed

text \<open>
  C7. A (vendor, brand) pair with a purchase row of price > 0 and a matching
  price-reference row appears in the result. If no sales row matches it on vendor and
  brand, every result row of that pair has NULL in the four sales columns; if no invoice
  row matches its vendor, every result row of that vendor has a NULL freight_cost.
\<close>

theorem unmatched_purchases_are_kept:
  assumes c: "conn_fault conn = None" "conn_store conn = Some db"
    and p: "p \<in> set (purchases db)" "gt_zero (p_PurchasePrice p)"
    and pp: "pp \<in> set (purchase_prices db)" "sql_eq (p_Brand p) (pp_Brand pp)"
  shows "\<exists>lg df vn br tsq tsd tsp tet fc.
     create_vendor_summary conn = (lg, Inr df) \<and>
     getitem df ''VendorNumber'' = Inr vn \<and> getitem df ''Brand'' = Inr br \<and>
     getitem df ''total_sales_quantity'' = Inr tsq \<and>
     getitem df ''total_sales_dollars'' = Inr tsd \<and>
     getitem df ''total_sales_price'' = Inr tsp \<and>
     getitem df ''total_excise_tax'' = Inr tet \<and>
     getitem df ''freight_cost'' = Inr fc \<and>
     (\<exists>i<nrows df. vn ! i = p_VendorNumber p \<and> br ! i = p_Brand p) \<and>
     ((\<forall>s\<in>set (sales db). \<not> (sql_eq (p_VendorNumber p) (s_VendorNo s) \<and>
                                sql_eq (p_Brand p) (s_Brand s))) \<longrightarrow>
      (\<forall>i<nrows df. vn ! i = p_VendorNumber p \<and> br ! i = p_Brand p \<longrightarrow>
          tsq ! i = Null \<and> tsd ! i = Null \<and> tsp ! i = Null \<and> tet ! i = Null)) \<and>
     ((\<forall>f\<in>set (vendor_invoice db). \<not> sql_eq (p_VendorNumber p) (i_VendorNumber f)) \<longrightarrow>
      (\<forall>i<nrows df. vn ! i = p_VendorNumber p \<longrightarrow> fc ! i = Null))"
proof -
  let ?R = "vendor_rows db"
  from rows_purchase_present[OF p pp] obtain x where
    x: "x \<in> set ?R" "ps_VendorNumber (fst (fst x)) = p_VendorNumber p"
       "ps_Brand (fst (fst x)) = p_Brand p" by blast
  then obtain i where i: "i < length ?R" "?R ! i = x" by (auto simp: in_set_conv_nth)
  have present: "\<exists>i<length ?R. ps_VendorNumber (fst (fst (?R ! i))) = p_VendorNumber p \<and>
      ps_Brand (fst (fst (?R ! i))) = p_Brand p"
    using i x by blast
  have sales: "sales_cell g (?R ! i) = Null"
    if no: "\<forall>s\<in>set (sales db). \<not> (sql_eq (p_VendorNumber p) (s_VendorNo s) \<and>
                                sql_eq (p_Brand p) (s_Brand s))"
      and i: "i < length ?R" and k: "ps_VendorNumber (fst (fst (?R ! i))) = p_VendorNumber p"
        "ps_Brand (fst (fst (?R ! i))) = p_Brand p" for i g
  proof -
    from i have "?R ! i \<in> set ?R" by simp
    from rows_sales_none[OF this] no k have "snd (fst (?R ! i)) = None" by simp
    then show ?thesis by (simp add: sales_cell_def)
  qed
  have freight: "freight_cell (?R ! i) = Null"
    if no: "\<forall>f\<in>set (vendor_invoice db). \<not> sql_eq (p_VendorNumber p) (i_VendorNumber f)"
      and i: "i < length ?R" and k: "ps_VendorNumber (fst (fst (?R ! i))) = p_VendorNumber p" for i
  proof -
    from i have "?R ! i \<in> set ?R" by simp
    from rows_freight_none[OF this] no k have "snd (?R ! i) = None" by simp
    then show ?thesis by (simp add: freight_cell_def)
  qed
  let ?vn = "map (\<lambda>x. ps_VendorNumber (fst (fst x))) ?R"
  let ?br = "map (\<lambda>x. ps_Brand (fst (fst x))) ?R"
  have c1: "\<exists>i<length ?R. ?vn ! i = p_VendorNumber p \<and> ?br ! i = p_Brand p"
    using present by auto
  have c2: "(\<forall>s\<in>set (sales db). \<not> (sql_eq (p_VendorNumber p) (s_VendorNo s) \<and>
                                sql_eq (p_Brand p) (s_Brand s))) \<longrightarrow>
      (\<forall>i<length ?R. ?vn ! i = p_VendorNumber p \<and> ?br ! i = p_Brand p \<longrightarrow>
          map (sales_cell ss_total_sales_quantity) ?R ! i = Null \<and>
          map (sales_cell ss_total_sales_dollars) ?R ! i = Null \<and>
          map (sales_cell ss_total_sales_price) ?R ! i = Null \<and>
          map (sales_cell ss_total_excise_tax) ?R ! i = Null)"
  proof (intro impI allI)
    fix i
    assume no: "\<forall>s\<in>set (sales db). \<not> (sql_eq (p_VendorNumber p) (s_VendorNo s) \<and>
                                sql_eq (p_Brand p) (s_Brand s))"
      and i: "i < length ?R" and k: "?vn ! i = p_VendorNumber p \<and> ?br ! i = p_Brand p"
    from i k have k': "ps_VendorNumber (fst (fst (?R ! i))) = p_VendorNumber p"
      "ps_Brand (fst (fst (?R ! i))) = p_Brand p" by simp_all
    from sales[OF no i k'] i show "map (sales_cell ss_total_sales_quantity) ?R ! i = Null \<and>
          map (sales_cell ss_total_sales_dollars) ?R ! i = Null \<and>
          map (sales_cell ss_total_sales_price) ?R ! i = Null \<and>
          map (sales_cell ss_total_excise_tax) ?R ! i = Null" by simp
  qed
  have c3: "(\<forall>f\<in>set (vendor_invoice db). \<not> sql_eq (p_VendorNumber p) (i_VendorNumber f)) \<longrightarrow>
      (\<forall>i<length ?R. ?vn ! i = p_VendorNumber p \<longrightarrow> map freight_cell ?R ! i = Null)"
  proof (intro impI allI)
    fix i
    assume no: "\<forall>f\<in>set (vendor_invoice db). \<not> sql_eq (p_VendorNumber p) (i_VendorNumber f)"
      and i: "i < length ?R" and k: "?vn ! i = p_VendorNumber p"
    from i k have "ps_VendorNumber (fst (fst (?R ! i))) = p_VendorNumber p" by simp
    from freight[OF no i this] i show "map freight_cell ?R ! i = Null" by simp
  qed
  show ?thesis
    unfolding create_ok[OF c]
    apply (rule exI, rule exI[of _ "query_frame ?R"], rule exI[of _ ?vn], rule exI[of _ ?br])
    apply (rule exI[of _ "map (sales_cell ss_total_sales_quantity) ?R"])
    apply (rule exI[of _ "map (sales_cell ss_total_sales_dollars) ?R"])
    apply (rule exI[of _ "map (sales_cell ss_total_sales_price) ?R"])
    apply (rule exI[of _ "map (sales_cell ss_total_excise_tax) ?R"])
    apply (rule exI[of _ "map freight_cell ?R"])
    using c1 c2 c3 by (simp add: query_frame_columns)
qed

theorem unmatched_purchases_are_kept_witness:
  "conn_fault ex_conn = None \<and> conn_store ex_conn = Some ex_db \<and>
   ex_purchase ''ALPHA'' 5 \<in> set (purchases ex_db) \<and>
   gt_zero (p_PurchasePrice (ex_purchase ''ALPHA'' 5)) \<and>
   \<lparr>pp_Brand = Num 10, pp_Volume = Str ''750'', pp_Price = Some 12\<rparr> \<in> set (purchase_prices ex_db) \<and>
   sql_eq (p_Brand (ex_purchase ''ALPHA'' 5))
     (pp_Brand \<lparr>pp_Brand = Num 10, pp_Volume = Str ''750'', pp_Price = Some 12\<rparr>) \<and>
   (\<exists>lg df vn br tsq tsd tsp tet fc.
     create_vendor_summary ex_conn = (lg, Inr df) \<and>
     getitem df ''VendorNumber'' = Inr vn \<and> getitem df ''Brand'' = Inr br \<and>
     getitem df ''total_sales_quantity'' = Inr tsq \<and>
     getitem df ''total_sales_dollars'' = Inr tsd \<and>
     getitem df ''total_sales_price'' = Inr tsp \<and>
     getitem df ''total_excise_tax'' = Inr tet \<and>
     getitem df ''freight_cost'' = Inr fc \<and>
     (\<exists>i<nrows df. vn ! i = p_VendorNumber (ex_purchase ''ALPHA'' 5) \<and>
                    br ! i = p_Brand (ex_purchase ''ALPHA'' 5)) \<and>
     ((\<forall>s\<in>set (sales ex_db). \<not> (sql_eq (p_VendorNumber (ex_purchase ''ALPHA'' 5)) (s_VendorNo s) \<and>
                                sql_eq (p_Brand (ex_purchase ''ALPHA'' 5)) (s_Brand s))) \<longrightarrow>
      (\<forall>i<nrows df. vn ! i = p_VendorNumber (ex_purchase ''ALPHA'' 5) \<and>
                     br ! i = p_Brand (ex_purchase ''ALPHA'' 5) \<longrightarrow>
          tsq ! i = Null \<and> tsd ! i = Null \<and> tsp ! i = Null \<and> tet ! i = Null)) \<and>
     ((\<forall>f\<in>set (vendor_invoice ex_db).
          \<not> sql_eq (p_VendorNumber (ex_purchase ''ALPHA'' 5)) (i_VendorNumber f)) \<longrightarrow>
      (\<forall>i<nrows df. vn ! i = p_VendorNumber (ex_purchase ''ALPHA'' 5) \<longrightarrow> fc ! i = Null)))"
  using ex_conn_ok ex_purchase_facts
    unmatched_purchases_are_kept [of ex_conn ex_db "ex_purchase ''ALPHA'' 5"
      "\<lparr>pp_Brand = Num 10, pp_Volume = Str ''750'', pp_Price = Some 12\<rparr>",
      OF ex_conn_ok ex_purchase_facts]
  by (intro conjI) assumption+



end
